theory Spec2Isabelle
  imports Complex_Main "HOL-Library.AList"
begin

section \<open>Values, exceptions and the observable world\<close>

text \<open>
  The two Cloud Run handlers (\<^verbatim>\<open>invoice_classifier/main.py\<close>, \<^verbatim>\<open>data_extractor/main.py\<close>)
  and the timing utility (\<^verbatim>\<open>shared/utils/timing.py\<close>) are embedded as state-passing
  functions over a \<open>world\<close>. Everything a handler calls that lives outside these files
  (storage, message bus, observer, the LLM extraction, pydantic validation, URI parsing,
  the clock) is a field of an environment record. A Python \<^verbatim>\<open>Exception\<close> is a value of
  type \<open>exn\<close>; a call that may raise returns \<open>exn + 'a\<close> with \<open>Inl\<close> for the raise.
  \<^verbatim>\<open>BaseException\<close>s that are not \<^verbatim>\<open>Exception\<close>s (interrupts, exits) are not modelled.

  An exception object has a truth value, which \<^verbatim>\<open>if exception_to_raise:\<close> tests. It is
  true unless the class of the object defines \<^verbatim>\<open>__bool__\<close> or \<^verbatim>\<open>__len__\<close> to say
  otherwise: \<open>Raised\<close> is an exception of an ordinary class, \<open>Falsy\<close> one of a class that
  makes its objects false.
\<close>

datatype exn = KeyError string | IndexError | Raised string | Falsy string

fun truthy :: "exn \<Rightarrow> bool" where
  "truthy (Falsy name) = False"
| "truthy _ = True"

datatype json =
    JNull
  | JBool bool
  | JInt int
  | JFloat real
  | JStr string
  | JArr "json list"
  | JObj "(string \<times> json) list"

datatype vendor_type = VendorType string

datatype level = DEBUG | INFO | WARNING | ERROR

text \<open>
  The messages of \<^verbatim>\<open>shared.schemas.messages\<close>, with the fields the handlers read or set.
  Floats that are only passed through (scores, confidences) are reals.
\<close>

record converted_message =
  source_file :: string
  converted_files :: "string list"
  page_count :: int

record classified_message =
  source_file :: string
  converted_files :: "string list"
  vendor_type :: vendor_type
  quality_score :: real
  archived_to :: "string option"

record trace_context =
  trace_id :: string
  session_id :: string
  parent_span_id :: string

record extracted_message =
  trace_id :: string
  session_id :: string
  parent_span_id :: string
  source_file :: string
  vendor_type :: vendor_type
  extraction_model :: string
  extraction_latency_ms :: int
  confidence_score :: real
  extracted_data :: json
  prompt_name :: string
  prompt_version :: string

text \<open>
  \<^verbatim>\<open>messaging.publish(topic, message.model_dump(mode="json"))\<close>: the payload is kept as the
  message object that is dumped; the wire form is a function of it.
\<close>

datatype payload = Classified classified_message | Extracted extracted_message

text \<open>
  One event per call that leaves the handler, in the order issued. Of the \<^verbatim>\<open>extra\<close> fields
  of a log record only \<^verbatim>\<open>latency_ms\<close>, the one read from the timing handle, is kept.
\<close>

datatype event =
    Read string string
  | Copy string string string string
  | Write string string string string
  | Publish string payload
  | ExtractInvoice "string list" vendor_type
  | ScoreTrace string "(string \<times> real) list" "(string \<times> string) list"
  | Flush
  | Log level string "int option"
  | LogException string exn "int option"

text \<open>
  The world: the call history, a store of dict objects by address (the timing handles),
  and the number of clock readings taken so far. The clock is an input sequence: the
  \<open>n\<close>-th call of \<^verbatim>\<open>time.perf_counter()\<close> returns \<open>clock n\<close>.
\<close>

record world =
  events :: "event list"
  store :: "nat \<Rightarrow> (string \<rightharpoonup> int)"
  allocated :: nat
  clock_reads :: nat

type_synonym 'a action = "world \<Rightarrow> (exn + 'a) \<times> world"

definition returns :: "'a \<Rightarrow> 'a action" where
  "returns x w = (Inr x, w)"

definition raise :: "exn \<Rightarrow> 'a action" where
  "raise e w = (Inl e, w)"

text \<open>Sequencing: a raise in the first statement skips the rest.\<close>

definition then_do :: "'a action \<Rightarrow> ('a \<Rightarrow> 'b action) \<Rightarrow> 'b action" where
  "then_do m f w = (case m w of (Inl e, w') \<Rightarrow> (Inl e, w') | (Inr x, w') \<Rightarrow> f x w')"

text \<open>A call of a pure helper: no event, it returns or raises.\<close>

definition pure_call :: "exn + 'a \<Rightarrow> 'a action" where
  "pure_call r w = (r, w)"

text \<open>
  A call of a collaborator: the event is appended to the history, and what the
  collaborator answers may depend on the whole history before the call.
\<close>

definition call :: "event \<Rightarrow> (event list \<Rightarrow> exn + 'a) \<Rightarrow> 'a action" where
  "call ev f w = (f (events w), w\<lparr>events := events w @ [ev]\<rparr>)"

definition logger :: "level \<Rightarrow> string \<Rightarrow> int option \<Rightarrow> unit action" where
  "logger l msg lat w = (Inr (), w\<lparr>events := events w @ [Log l msg lat]\<rparr>)"

definition logger_exception :: "string \<Rightarrow> exn \<Rightarrow> int option \<Rightarrow> unit action" where
  "logger_exception msg e lat w = (Inr (), w\<lparr>events := events w @ [LogException msg e lat]\<rparr>)"

section \<open>The function timer\<close>

text \<open>
  \<^verbatim>\<open>int(x)\<close> on a float truncates towards zero. Clock readings are reals: rounding of
  the float subtraction and multiplication is not modelled.
\<close>

definition py_int :: "real \<Rightarrow> int" where
  "py_int x = (if 0 \<le> x then floor x else ceiling x)"

text \<open>
  \<^verbatim>\<open>metrics = {}; start = time.perf_counter()\<close>: a fresh dict object is allocated and the
  clock is read. The result is the address of the dict, the reading and the new world.
\<close>

definition timer_enter :: "(nat \<Rightarrow> real) \<Rightarrow> world \<Rightarrow> nat \<times> real \<times> world" where
  "timer_enter clock w =
     (let metrics = allocated w;
          w1 = w\<lparr>store := (store w)(metrics := Map.empty), allocated := Suc metrics\<rparr>;
          start = clock (clock_reads w1);
          w2 = w1\<lparr>clock_reads := Suc (clock_reads w1)\<rparr>
      in (metrics, start, w2))"

text \<open>
  The \<^verbatim>\<open>finally\<close> block: read the clock, then \<^verbatim>\<open>metrics["latency_ms"] = elapsed_ms\<close> on
  the dict object at address \<open>metrics\<close>.
\<close>

definition timer_exit :: "(nat \<Rightarrow> real) \<Rightarrow> nat \<Rightarrow> real \<Rightarrow> world \<Rightarrow> world" where
  "timer_exit clock metrics start w =
     (let finish = clock (clock_reads w);
          w1 = w\<lparr>clock_reads := Suc (clock_reads w)\<rparr>;
          elapsed_ms = py_int ((finish - start) * 1000)
      in w1\<lparr>store := (store w1)(metrics := (store w1 metrics)(''latency_ms'' \<mapsto> elapsed_ms))\<rparr>)"

text \<open>
  \<^verbatim>\<open>with function_timer() as timing: body\<close>. The body gets the address of the handle; its
  outcome (a value or a raise) is passed on after the \<^verbatim>\<open>finally\<close> block has run. The
  address is returned as well, since the code after the \<^verbatim>\<open>with\<close> block still holds it.
\<close>

definition function_timer ::
  "(nat \<Rightarrow> real) \<Rightarrow> (nat \<Rightarrow> 'a action) \<Rightarrow> world \<Rightarrow> (nat \<times> (exn + 'a)) \<times> world" where
  "function_timer clock body w =
     (case timer_enter clock w of (metrics, start, w2) \<Rightarrow>
        (case body metrics w2 of (res, w3) \<Rightarrow>
           ((metrics, res), timer_exit clock metrics start w3)))"


text \<open>An initial world: no call issued, no dict allocated, no clock reading taken.\<close>

definition world0 :: world where
  "world0 = \<lparr>events = [], store = (\<lambda>_. Map.empty), allocated = 0, clock_reads = 0\<rparr>"

section \<open>Collaborators\<close>

record config =
  failed_bucket :: string
  archive_bucket :: string
  extracted_topic :: string
  classified_topic :: string

text \<open>\<^verbatim>\<open>ExtractionResult\<close> of the extractor module; \<open>'inv\<close> is the pydantic invoice model.\<close>

record 'inv extraction_result =
  success :: bool
  invoice :: "'inv option"
  error :: "string option"
  provider :: string
  latency_ms :: int
  confidence :: real
  prompt_name :: string
  prompt_version :: string

text \<open>\<^verbatim>\<open>ClassificationResult\<close> of the classifier module.\<close>

record classification_result =
  vendor_type :: vendor_type
  confidence :: real
  detection_method :: string
  matched_pattern :: "string option"

text \<open>
  The environment holds what \<^verbatim>\<open>get_config()\<close> and the adapter constructors of lines 63-81
  (45-47 in the classifier) provide, and every function imported from outside the three
  files. Pure helpers are functions of their arguments. Calls on storage, messaging, the
  observer and the LLM extraction take the history of events as first argument.
  \<open>extracted_message_check\<close> and \<open>classified_message_check\<close> are the validation a pydantic
  constructor runs.

  \<^verbatim>\<open>base64.b64decode\<close>, \<^verbatim>\<open>json.loads\<close> and pydantic raise exceptions of their own
  classes (\<^verbatim>\<open>binascii.Error\<close>, \<^verbatim>\<open>JSONDecodeError\<close>, \<^verbatim>\<open>UnicodeDecodeError\<close>,
  \<^verbatim>\<open>ValidationError\<close>), all of them \<^verbatim>\<open>ValueError\<close>s whose objects are true. Their fields
  give the text of the exception (\<open>Inl\<close>, or \<open>Some\<close> for a constructor) and the model
  raises it as an ordinary exception. Every other collaborator may raise any exception,
  a false one included.
\<close>

record 'inv env =
  config :: config
  b64decode :: "string \<Rightarrow> string + string"
  json_loads :: "string \<Rightarrow> string + json"
  json_dumps :: "json \<Rightarrow> string"
  converted_model_validate :: "json \<Rightarrow> string + converted_message"
  classified_model_validate :: "json \<Rightarrow> string + classified_message"
  classified_message_check :: "classified_message \<Rightarrow> string option"
  extracted_message_check :: "extracted_message \<Rightarrow> string option"
  from_message :: "classified_message \<Rightarrow> exn + trace_context"
  parse_gcs_uri :: "string \<Rightarrow> exn + string \<times> string"
  validate_all_images :: "string list \<Rightarrow> exn + bool \<times> real \<times> string list"
  classify_vendor :: "string \<Rightarrow> string list \<Rightarrow> exn + classification_result"
  calculate_extraction_scores :: "'inv \<Rightarrow> exn + (string \<times> real) list"
  get_score_comments :: "'inv \<Rightarrow> (string \<times> real) list \<Rightarrow> exn + (string \<times> string) list"
  invoice_model_dump :: "'inv \<Rightarrow> json"
  storage_read :: "event list \<Rightarrow> string \<Rightarrow> string \<Rightarrow> exn + string"
  storage_copy :: "event list \<Rightarrow> string \<Rightarrow> string \<Rightarrow> string \<Rightarrow> string \<Rightarrow> exn + string"
  storage_write :: "event list \<Rightarrow> string \<Rightarrow> string \<Rightarrow> string \<Rightarrow> string \<Rightarrow> exn + unit"
  messaging_publish :: "event list \<Rightarrow> string \<Rightarrow> payload \<Rightarrow> exn + unit"
  extract_invoice :: "event list \<Rightarrow> string list \<Rightarrow> vendor_type \<Rightarrow> exn + 'inv extraction_result"
  observer_is_enabled :: bool
  observer_score_trace ::
    "event list \<Rightarrow> string \<Rightarrow> (string \<times> real) list \<Rightarrow> (string \<times> string) list \<Rightarrow> exn + unit"
  observer_flush :: "event list \<Rightarrow> exn + unit"
  perf_counter :: "nat \<Rightarrow> real"

section \<open>Python helpers\<close>

text \<open>\<^verbatim>\<open>try: m except Exception as e: h\<close>.\<close>

definition try_except :: "'a action \<Rightarrow> (exn \<Rightarrow> 'a action) \<Rightarrow> 'a action" where
  "try_except m h w = (case m w of (Inl e, w') \<Rightarrow> h e w' | (Inr x, w') \<Rightarrow> (Inr x, w'))"

text \<open>Sequencing of pure steps that may raise.\<close>

definition and_then :: "exn + 'a \<Rightarrow> ('a \<Rightarrow> exn + 'b) \<Rightarrow> exn + 'b" where
  "and_then r f = (case r of Inl e \<Rightarrow> Inl e | Inr x \<Rightarrow> f x)"

text \<open>A library call that raises an exception of its own, ordinary class.\<close>

definition raising :: "string + 'a \<Rightarrow> exn + 'a" where
  "raising r = (case r of Inl text \<Rightarrow> Inl (Raised text) | Inr x \<Rightarrow> Inr x)"

text \<open>\<^verbatim>\<open>d[k]\<close> on a dict.\<close>

definition getitem :: "(string \<rightharpoonup> 'v) \<Rightarrow> string \<Rightarrow> exn + 'v" where
  "getitem d k = (case d k of None \<Rightarrow> Inl (KeyError k) | Some v \<Rightarrow> Inr v)"

text \<open>\<^verbatim>\<open>xs[-1]\<close> on a list.\<close>

definition index_last :: "'a list \<Rightarrow> exn + 'a" where
  "index_last xs = (if xs = [] then Inl IndexError else Inr (last xs))"

text \<open>\<^verbatim>\<open>s.split(sep)\<close> for a separator of one character.\<close>

fun split :: "char \<Rightarrow> string \<Rightarrow> string list" where
  "split sep [] = [[]]"
| "split sep (c # cs) =
     (if c = sep then [] # split sep cs
      else (case split sep cs of [] \<Rightarrow> [[c]] | s # ss \<Rightarrow> (c # s) # ss))"

text \<open>\<^verbatim>\<open>x or d\<close> for an optional string: \<^verbatim>\<open>None\<close> and the empty string are falsy.\<close>

definition or_else :: "string option \<Rightarrow> string \<Rightarrow> string" where
  "or_else x d = (case x of None \<Rightarrow> d | Some s \<Rightarrow> (if s = [] then d else s))"

text \<open>\<^verbatim>\<open>str(i)\<close> for an int, as an f-string formats it.\<close>

fun digits :: "nat \<Rightarrow> string" where
  "digits n =
     (if n < 10 then [''0123456789'' ! n]
      else digits (n div 10) @ [''0123456789'' ! (n mod 10)])"

definition str_int :: "int \<Rightarrow> string" where
  "str_int i = (if i < 0 then CHR ''-'' # digits (nat (- i)) else digits (nat i))"

text \<open>The event bus hands over \<^verbatim>\<open>cloud_event.data\<close>, a dict of dicts.\<close>

type_synonym cloud_event = "string \<rightharpoonup> (string \<rightharpoonup> string)"

section \<open>Downloading the converted files\<close>

text \<open>
  Lines 112-118 of the extractor and 72-78 of the classifier, the same loop:
  \<^verbatim>\<open>for png_uri in message.converted_files: bucket, path = parse_gcs_uri(png_uri);
  png_data = storage.read(bucket, path); images_data.append(png_data);
  total_input_bytes += len(png_data)\<close>.
\<close>

fun download_images ::
  "'inv env \<Rightarrow> string list \<Rightarrow> string list \<Rightarrow> int \<Rightarrow> (string list \<times> int) action" where
  "download_images env [] images_data total_input_bytes w =
     returns (images_data, total_input_bytes) w"
| "download_images env (png_uri # rest) images_data total_input_bytes w =
     then_do (pure_call (parse_gcs_uri env png_uri)) (\<lambda>(bucket, path).
     then_do (call (Read bucket path) (\<lambda>h. storage_read env h bucket path)) (\<lambda>png_data.
     download_images env rest (images_data @ [png_data])
       (total_input_bytes + int (length png_data)))) w"

section \<open>The failure router\<close>

definition error_record :: "string \<Rightarrow> string \<Rightarrow> json" where
  "error_record src error_message =
     JObj [(''source_file'', JStr src), (''error'', JStr error_message)]"

text \<open>
  \<^verbatim>\<open>_copy_to_failed_bucket(storage, config, source_file, error_message)\<close>, lines 257-297:
  the whole body is one \<^verbatim>\<open>try\<close> whose handler logs an error and returns.
\<close>

definition copy_to_failed_bucket :: "'inv env \<Rightarrow> string \<Rightarrow> string \<Rightarrow> unit action" where
  "copy_to_failed_bucket env src error_message =
     try_except
       (then_do (pure_call (parse_gcs_uri env src)) (\<lambda>(source_bucket, source_path).
        then_do (pure_call (index_last (split CHR ''/'' source_path))) (\<lambda>filename.
        then_do (call (Copy source_bucket source_path (failed_bucket (config env)) filename)
                   (\<lambda>h. storage_copy env h source_bucket source_path
                           (failed_bucket (config env)) filename)) (\<lambda>_.
        then_do (call (Write (failed_bucket (config env)) (filename @ ''.error.json'')
                         (json_dumps env (error_record src error_message)) ''application/json'')
                   (\<lambda>h. storage_write env h (failed_bucket (config env))
                           (filename @ ''.error.json'')
                           (json_dumps env (error_record src error_message))
                           ''application/json'')) (\<lambda>_.
        logger INFO ''Copied failed invoice to failed bucket'' None)))))
       (\<lambda>e. logger ERROR ''Failed to copy to failed bucket'' None)"

section \<open>The extraction handler\<close>

text \<open>\<^verbatim>\<open>timing["latency_ms"]\<close> on the handle at address \<open>timing\<close>.\<close>

definition read_latency :: "nat \<Rightarrow> int action" where
  "read_latency timing w = (getitem (store w timing) ''latency_ms'', w)"

text \<open>A pydantic constructor call: the object, or the validation error.\<close>

definition construct :: "('m \<Rightarrow> string option) \<Rightarrow> 'm \<Rightarrow> 'm action" where
  "construct check m =
     pure_call (case check m of Some text \<Rightarrow> Inl (Raised text) | None \<Rightarrow> Inr m)"

text \<open>
  Lines 92-95: \<^verbatim>\<open>base64.b64decode(cloud_event.data["message"]["data"])\<close>,
  \<^verbatim>\<open>json.loads\<close>, \<^verbatim>\<open>InvoiceClassifiedMessage.model_validate\<close>.
\<close>

definition decode_classified :: "'inv env \<Rightarrow> cloud_event \<Rightarrow> exn + classified_message" where
  "decode_classified env ce =
     and_then (getitem ce ''message'') (\<lambda>m.
     and_then (getitem m ''data'') (\<lambda>d.
     and_then (raising (b64decode env d)) (\<lambda>message_data.
     and_then (raising (json_loads env message_data)) (\<lambda>raw_message.
     raising (classified_model_validate env raw_message)))))"

text \<open>
  Lines 92-135: validation, trace context, downloads and the extraction computation.
  The values the rest of the \<^verbatim>\<open>try\<close> block uses are returned. The locals that are
  read after the \<^verbatim>\<open>with\<close> block only to fill \<^verbatim>\<open>extra\<close> fields of log records
  (\<^verbatim>\<open>source_file\<close>, \<^verbatim>\<open>total_input_bytes\<close>, \<^verbatim>\<open>result\<close>) are not kept.
\<close>

definition classified_prepare ::
  "'inv env \<Rightarrow> cloud_event \<Rightarrow> (classified_message \<times> trace_context \<times> 'inv extraction_result) action"
  where
  "classified_prepare env ce =
     then_do (pure_call (decode_classified env ce)) (\<lambda>message.
     then_do (pure_call (from_message env message)) (\<lambda>trace_context.
     then_do (logger INFO ''Processing classified invoice'' None) (\<lambda>_.
     then_do (download_images env (classified_message.converted_files message) [] 0)
       (\<lambda>(images_data, total_input_bytes).
     then_do (logger INFO ''Downloaded all images'' None) (\<lambda>_.
     then_do (call (ExtractInvoice images_data (classified_message.vendor_type message))
                (\<lambda>h. extract_invoice env h images_data (classified_message.vendor_type message)))
       (\<lambda>result.
     returns (message, trace_context, result)))))))"

text \<open>
  What the following \<^verbatim>\<open>return\<close> or fall-through does with the rest of the function.
\<close>

datatype flow = Returned | Completed

text \<open>Lines 137-150, the branch \<^verbatim>\<open>if not result.success\<close>.\<close>

definition classified_failure ::
  "'inv env \<Rightarrow> classified_message \<Rightarrow> 'inv extraction_result \<Rightarrow> flow action" where
  "classified_failure env message result =
     then_do (logger ERROR ''Extraction failed - moving to failed bucket'' None) (\<lambda>_.
     then_do (copy_to_failed_bucket env (classified_message.source_file message)
                (or_else (error result) ''Unknown error'')) (\<lambda>_.
     then_do (call Flush (observer_flush env)) (\<lambda>_.
     returns Returned)))"

text \<open>Lines 167-187, the scores sent to the observer.\<close>

definition score_extraction ::
  "'inv env \<Rightarrow> trace_context \<Rightarrow> 'inv extraction_result \<Rightarrow> unit action" where
  "score_extraction env trace_context result =
     (case invoice result of
        None \<Rightarrow> returns ()
      | Some doc \<Rightarrow>
          if observer_is_enabled env then
            then_do (pure_call (calculate_extraction_scores env doc)) (\<lambda>scores.
            then_do (returns (AList.update ''extraction_confidence''
                       (extraction_result.confidence result) scores)) (\<lambda>extraction_scores.
            then_do (pure_call (get_score_comments env doc extraction_scores)) (\<lambda>comments.
            then_do (returns (AList.update ''extraction_confidence''
                       (''Provider: '' @ provider result @ '', latency: ''
                          @ str_int (latency_ms result) @ ''ms'') comments)) (\<lambda>score_comments.
            then_do (call (ScoreTrace (trace_context.trace_id trace_context)
                             extraction_scores score_comments)
                       (\<lambda>h. observer_score_trace env h (trace_context.trace_id trace_context)
                               extraction_scores score_comments)) (\<lambda>_.
            logger DEBUG ''Added LangFuse scores'' None)))))
          else returns ())"

text \<open>Lines 189-201, the arguments of the \<^verbatim>\<open>InvoiceExtractedMessage\<close> constructor.\<close>

definition extracted_of ::
  "'inv env \<Rightarrow> classified_message \<Rightarrow> trace_context \<Rightarrow> 'inv extraction_result \<Rightarrow> extracted_message"
  where
  "extracted_of env message trace_context result =
     \<lparr>extracted_message.trace_id = trace_context.trace_id trace_context,
      extracted_message.session_id = trace_context.session_id trace_context,
      extracted_message.parent_span_id = trace_context.parent_span_id trace_context,
      extracted_message.source_file = classified_message.source_file message,
      extracted_message.vendor_type = classified_message.vendor_type message,
      extraction_model =
        (if provider result = ''gemini'' then ''gemini-2.5-flash'' else ''openrouter''),
      extraction_latency_ms = latency_ms result,
      confidence_score = extraction_result.confidence result,
      extracted_data =
        (case invoice result of None \<Rightarrow> JObj [] | Some doc \<Rightarrow> invoice_model_dump env doc),
      extracted_message.prompt_name = extraction_result.prompt_name result,
      extracted_message.prompt_version = extraction_result.prompt_version result\<rparr>"

text \<open>Lines 152-208, the rest of the \<^verbatim>\<open>try\<close> block when the extraction succeeded.\<close>

definition classified_success ::
  "'inv env \<Rightarrow> classified_message \<Rightarrow> trace_context \<Rightarrow> 'inv extraction_result \<Rightarrow> flow action"
  where
  "classified_success env message trace_context result =
     then_do (logger INFO ''Extraction successful'' None) (\<lambda>_.
     then_do (score_extraction env trace_context result) (\<lambda>_.
     then_do (construct (extracted_message_check env)
                (extracted_of env message trace_context result)) (\<lambda>extracted_message.
     then_do (call (Publish (extracted_topic (config env)) (Extracted extracted_message))
                (\<lambda>h. messaging_publish env h (extracted_topic (config env))
                        (Extracted extracted_message))) (\<lambda>_.
     then_do (call Flush (observer_flush env)) (\<lambda>_.
     returns Completed)))))"

text \<open>Lines 92-208, the \<^verbatim>\<open>try\<close> block.\<close>

definition classified_try :: "'inv env \<Rightarrow> cloud_event \<Rightarrow> flow action" where
  "classified_try env ce =
     then_do (classified_prepare env ce) (\<lambda>(message, trace_context, result).
       if \<not> success result then classified_failure env message result
       else classified_success env message trace_context result)"

text \<open>
  Lines 91-212, the body of the \<^verbatim>\<open>with\<close> block: the \<^verbatim>\<open>try\<close> block and its handler
  \<^verbatim>\<open>except Exception as e: exception_to_raise = e; observer.flush()\<close>. The result is how the
  block was left and the value of \<^verbatim>\<open>exception_to_raise\<close>.
\<close>

definition classified_with_body :: "'inv env \<Rightarrow> cloud_event \<Rightarrow> (flow \<times> exn option) action" where
  "classified_with_body env ce =
     try_except
       (then_do (classified_try env ce) (\<lambda>fl. returns (fl, None)))
       (\<lambda>e. then_do (call Flush (observer_flush env)) (\<lambda>_. returns (Completed, Some e)))"

text \<open>Lines 215-226, the body of \<^verbatim>\<open>if exception_to_raise:\<close>.\<close>

definition classified_reraise :: "nat \<Rightarrow> exn \<Rightarrow> unit action" where
  "classified_reraise timing e =
     then_do (read_latency timing) (\<lambda>latency.
     then_do (logger_exception ''Extraction processing failed'' e (Some latency)) (\<lambda>_.
     raise e))"

text \<open>Lines 228-238, the log record at the end of the function.\<close>

definition classified_complete :: "nat \<Rightarrow> unit action" where
  "classified_complete timing =
     then_do (read_latency timing) (\<lambda>latency.
     logger INFO ''Extraction complete - published event'' (Some latency))"

text \<open>
  Lines 214-238, after the \<^verbatim>\<open>with\<close> block: a raise that left the block goes on to the
  caller, and a \<^verbatim>\<open>return\<close> inside the block has ended the function. Otherwise
  \<^verbatim>\<open>if exception_to_raise:\<close> tests the truth value of the variable: \<^verbatim>\<open>None\<close> is false,
  and an exception object is as true as its class makes it. A true one is logged and
  raised; for \<^verbatim>\<open>None\<close> and for a false exception object the function goes on to the
  final log record and returns.
\<close>

fun classified_after :: "nat \<Rightarrow> exn + flow \<times> exn option \<Rightarrow> unit action" where
  "classified_after timing (Inl e) = raise e"
| "classified_after timing (Inr (Returned, _)) = returns ()"
| "classified_after timing (Inr (Completed, Some e)) =
     (if truthy e then classified_reraise timing e else classified_complete timing)"
| "classified_after timing (Inr (Completed, None)) = classified_complete timing"

definition handle_invoice_classified :: "'inv env \<Rightarrow> cloud_event \<Rightarrow> unit action" where
  "handle_invoice_classified env ce w =
     (case function_timer (perf_counter env) (\<lambda>timing. classified_with_body env ce) w of
        ((timing, res), w') \<Rightarrow> classified_after timing res w')"

section \<open>The classification handler\<close>

text \<open>Lines 57-60.\<close>

definition decode_converted :: "'inv env \<Rightarrow> cloud_event \<Rightarrow> exn + converted_message" where
  "decode_converted env ce =
     and_then (getitem ce ''message'') (\<lambda>m.
     and_then (getitem m ''data'') (\<lambda>d.
     and_then (raising (b64decode env d)) (\<lambda>message_data.
     and_then (raising (json_loads env message_data)) (\<lambda>raw_message.
     raising (converted_model_validate env raw_message)))))"

text \<open>Lines 57-89: validation, downloads and the image-quality validation.\<close>

definition converted_prepare ::
  "'inv env \<Rightarrow> cloud_event \<Rightarrow> (converted_message \<times> bool \<times> real \<times> string list) action" where
  "converted_prepare env ce =
     then_do (pure_call (decode_converted env ce)) (\<lambda>message.
     then_do (logger INFO ''Processing converted invoice'' None) (\<lambda>_.
     then_do (download_images env (converted_message.converted_files message) [] 0)
       (\<lambda>(images_data, total_input_bytes).
     then_do (logger INFO ''Downloaded all images'' None) (\<lambda>_.
     then_do (pure_call (validate_all_images env images_data)) (\<lambda>(all_valid, avg_score, issues).
     returns (message, all_valid, avg_score, issues))))))"

text \<open>Lines 91-142: the warning, classification, archiving and the publish.\<close>

definition converted_finish ::
  "'inv env \<Rightarrow> converted_message \<Rightarrow> bool \<Rightarrow> real \<Rightarrow> unit action" where
  "converted_finish env message all_valid avg_score =
     then_do (if \<not> all_valid then logger WARNING ''Image quality validation failed'' None
              else returns ()) (\<lambda>_.
     then_do (pure_call (classify_vendor env (converted_message.source_file message)
                (converted_message.converted_files message))) (\<lambda>classification.
     then_do (logger INFO ''Vendor classification complete'' None) (\<lambda>_.
     then_do (pure_call (parse_gcs_uri env (converted_message.source_file message)))
       (\<lambda>(source_bucket, source_path).
     then_do (call (Copy source_bucket source_path (archive_bucket (config env)) source_path)
                (\<lambda>h. storage_copy env h source_bucket source_path
                        (archive_bucket (config env)) source_path)) (\<lambda>archive_uri.
     then_do (logger INFO ''Archived original file'' None) (\<lambda>_.
     then_do (construct (classified_message_check env)
                \<lparr>classified_message.source_file = converted_message.source_file message,
                 classified_message.converted_files = converted_message.converted_files message,
                 classified_message.vendor_type = classification_result.vendor_type classification,
                 quality_score = avg_score,
                 archived_to = Some archive_uri\<rparr>) (\<lambda>classified_message.
     call (Publish (classified_topic (config env)) (Classified classified_message))
       (\<lambda>h. messaging_publish env h (classified_topic (config env))
               (Classified classified_message)))))))))"

text \<open>Lines 57-142, the \<^verbatim>\<open>try\<close> block.\<close>

definition converted_try :: "'inv env \<Rightarrow> cloud_event \<Rightarrow> unit action" where
  "converted_try env ce =
     then_do (converted_prepare env ce) (\<lambda>(message, all_valid, avg_score, issues).
       converted_finish env message all_valid avg_score)"

text \<open>
  Lines 55-145, the body of the \<^verbatim>\<open>with\<close> block; the handler only keeps the exception.
\<close>

definition converted_with_body :: "'inv env \<Rightarrow> cloud_event \<Rightarrow> exn option action" where
  "converted_with_body env ce =
     try_except
       (then_do (converted_try env ce) (\<lambda>_. returns None))
       (\<lambda>e. returns (Some e))"

text \<open>Lines 148-159, the body of \<^verbatim>\<open>if exception_to_raise:\<close>.\<close>

definition converted_reraise :: "nat \<Rightarrow> exn \<Rightarrow> unit action" where
  "converted_reraise timing e =
     then_do (read_latency timing) (\<lambda>latency.
     then_do (logger_exception ''Classification failed'' e (Some latency)) (\<lambda>_.
     raise e))"

text \<open>Lines 161-171, the log record at the end of the function.\<close>

definition converted_complete :: "nat \<Rightarrow> unit action" where
  "converted_complete timing =
     then_do (read_latency timing) (\<lambda>latency.
     logger INFO ''Classification complete - published event'' (Some latency))"

text \<open>
  Lines 147-171: the same truth test of \<^verbatim>\<open>exception_to_raise\<close> as in the extraction
  handler.
\<close>

fun converted_after :: "nat \<Rightarrow> exn + exn option \<Rightarrow> unit action" where
  "converted_after timing (Inl e) = raise e"
| "converted_after timing (Inr (Some e)) =
     (if truthy e then converted_reraise timing e else converted_complete timing)"
| "converted_after timing (Inr None) = converted_complete timing"

definition handle_invoice_converted :: "'inv env \<Rightarrow> cloud_event \<Rightarrow> unit action" where
  "handle_invoice_converted env ce w =
     (case function_timer (perf_counter env) (\<lambda>timing. converted_with_body env ce) w of
        ((timing, res), w') \<Rightarrow> converted_after timing res w')"

section \<open>Observing a run\<close>

text \<open>The events issued between two worlds of one run.\<close>

definition new_events :: "world \<Rightarrow> world \<Rightarrow> event list" where
  "new_events w w' = drop (length (events w)) (events w')"

fun is_publish :: "event \<Rightarrow> bool" where
  "is_publish (Publish topic p) = True"
| "is_publish _ = False"

fun is_write :: "event \<Rightarrow> bool" where
  "is_write (Write bucket path data content_type) = True"
| "is_write _ = False"

text \<open>The bytes a storage write carries.\<close>

fun written_data :: "event \<Rightarrow> string option" where
  "written_data (Write bucket path body content_type) = Some body"
| "written_data _ = None"

text \<open>
  A call that reads or changes storage, publishes, or reaches the LLM or the trace:
  everything but a flush of the observer and a log record.
\<close>

fun side_effect :: "event \<Rightarrow> bool" where
  "side_effect Flush = False"
| "side_effect (Log l msg lat) = False"
| "side_effect (LogException msg e lat) = False"
| "side_effect _ = True"

text \<open>
  An action only appends to the history, and every event it appends satisfies \<open>P\<close>.
\<close>

definition emits :: "(event \<Rightarrow> bool) \<Rightarrow> 'a action \<Rightarrow> bool" where
  "emits P m \<longleftrightarrow>
     (\<forall>w. \<exists>new. events (snd (m w)) = events w @ new \<and> list_all P new)"

text \<open>
  The world in which the body of a handler's \<^verbatim>\<open>with\<close> block starts, and the latency
  the timer writes when the body leaves the world \<open>w'\<close>.
\<close>

definition entered :: "'inv env \<Rightarrow> world \<Rightarrow> world" where
  "entered env w = snd (snd (timer_enter (perf_counter env) w))"

definition elapsed :: "'inv env \<Rightarrow> world \<Rightarrow> world \<Rightarrow> int" where
  "elapsed env w w' =
     py_int ((perf_counter env (clock_reads w') - perf_counter env (clock_reads w)) * 1000)"

section \<open>A sample environment\<close>

text \<open>
  Stand-ins for the collaborators, as a unit test would set them up, to run the handlers
  on concrete inputs. The theorems below hold for every environment; the sample one is
  used to show that their hypotheses can be met and to exhibit concrete runs.
\<close>

definition sample_parse_uri :: "string \<Rightarrow> exn + string \<times> string" where
  "sample_parse_uri uri =
     (if take 5 uri = ''gs://''
      then Inr (takeWhile (\<lambda>c. c \<noteq> CHR ''/'') (drop 5 uri),
                drop 1 (dropWhile (\<lambda>c. c \<noteq> CHR ''/'') (drop 5 uri)))
      else Inl (Raised ''ValueError''))"

definition sample_classified :: classified_message where
  "sample_classified =
     \<lparr>classified_message.source_file = ''gs://landing/2024/a.tif'',
      classified_message.converted_files = [''gs://processed/a.png''],
      classified_message.vendor_type = VendorType ''ubereats'',
      quality_score = 0.9,
      archived_to = Some ''gs://archive/2024/a.tif''\<rparr>"

definition sample_converted :: converted_message where
  "sample_converted =
     \<lparr>converted_message.source_file = ''gs://landing/2024/a.tif'',
      converted_message.converted_files = [''gs://processed/a.png''],
      page_count = 1\<rparr>"

definition sample_trace :: trace_context where
  "sample_trace =
     \<lparr>trace_context.trace_id = ''t1'', trace_context.session_id = ''s1'',
      trace_context.parent_span_id = ''p1''\<rparr>"

text \<open>An extraction that failed without an error text, and one that succeeded.\<close>

definition sample_failure :: "json extraction_result" where
  "sample_failure =
     \<lparr>success = False, invoice = None, error = None, provider = ''gemini'',
      latency_ms = 1200, extraction_result.confidence = 0,
      extraction_result.prompt_name = ''invoice'', extraction_result.prompt_version = ''3''\<rparr>"

definition sample_success :: "json extraction_result" where
  "sample_success =
     \<lparr>success = True, invoice = Some (JObj [(''invoice_id'', JStr ''INV-1'')]), error = None,
      provider = ''gemini'', latency_ms = 1200, extraction_result.confidence = 0.75,
      extraction_result.prompt_name = ''invoice'', extraction_result.prompt_version = ''3''\<rparr>"

definition sample_env :: "json extraction_result \<Rightarrow> json env" where
  "sample_env result =
     \<lparr>config = \<lparr>failed_bucket = ''failed'', archive_bucket = ''archive'',
                 extracted_topic = ''invoice-extracted'',
                 classified_topic = ''invoice-classified''\<rparr>,
      b64decode = (\<lambda>s. Inr s),
      json_loads = (\<lambda>s. Inr (JStr s)),
      json_dumps = (\<lambda>j. case j of
                      JObj [(k1, JStr v1), (k2, JStr v2)] \<Rightarrow> k1 @ ''='' @ v1 @ '';'' @ k2 @ ''='' @ v2
                    | _ \<Rightarrow> ''?''),
      converted_model_validate =
        (\<lambda>j. if j = JStr ''converted'' then Inr sample_converted
              else Inl ''ValidationError''),
      classified_model_validate =
        (\<lambda>j. if j = JStr ''classified'' then Inr sample_classified
              else Inl ''ValidationError''),
      classified_message_check = (\<lambda>m. None),
      extracted_message_check = (\<lambda>m. None),
      from_message = (\<lambda>m. Inr sample_trace),
      parse_gcs_uri = sample_parse_uri,
      validate_all_images = (\<lambda>images. Inr (False, 0.4, [''low contrast''])),
      classify_vendor =
        (\<lambda>src files. Inr \<lparr>classification_result.vendor_type = VendorType ''ubereats'',
                            classification_result.confidence = 1,
                            detection_method = ''filename'', matched_pattern = None\<rparr>),
      calculate_extraction_scores = (\<lambda>doc. Inr [(''completeness'', 1)]),
      get_score_comments = (\<lambda>doc scores. Inr [(''completeness'', ''all fields present'')]),
      invoice_model_dump = (\<lambda>doc. doc),
      storage_read = (\<lambda>h bucket path. Inr ''png-bytes''),
      storage_copy = (\<lambda>h sb sp db dp. Inr (''gs://'' @ db @ ''/'' @ dp)),
      storage_write = (\<lambda>h bucket path data content_type. Inr ()),
      messaging_publish = (\<lambda>h topic p. Inr ()),
      extract_invoice = (\<lambda>h images vendor. Inr result),
      observer_is_enabled = True,
      observer_score_trace = (\<lambda>h trace scores comments. Inr ()),
      observer_flush = (\<lambda>h. Inr ()),
      perf_counter = (\<lambda>n. real n * 2.5)\<rparr>"

text \<open>The same environment with an observer whose flush raises.\<close>

definition sample_env_flush_down :: "json extraction_result \<Rightarrow> json env" where
  "sample_env_flush_down result =
     (sample_env result)\<lparr>observer_flush := \<lambda>h. Inl (Raised ''observer down'')\<rparr>"


text \<open>Bus events whose payload the sample validators accept, and one they reject.\<close>

definition classified_event :: cloud_event where
  "classified_event = [''message'' \<mapsto> [''data'' \<mapsto> ''classified'']]"

definition converted_event :: cloud_event where
  "converted_event = [''message'' \<mapsto> [''data'' \<mapsto> ''converted'']]"

definition malformed_event :: cloud_event where
  "malformed_event = [''message'' \<mapsto> [''data'' \<mapsto> ''garbage'']]"

section \<open>Properties of the timer\<close>

lemma py_int_nonneg: "0 \<le> x \<Longrightarrow> 0 \<le> py_int x"
  by (simp add: py_int_def)

text \<open>
  C6. For every timer scope: the handle given to the body has no key at all (so no
  \<^verbatim>\<open>latency_ms\<close>); whatever the body does and however it ends, the outcome of the scope is
  the outcome of the body (a raise stays the same raise), and the world after the scope
  is the world the body left with one more clock reading and exactly one store update:
  the dict at the address given to the body gets \<^verbatim>\<open>latency_ms\<close> set to the elapsed whole
  milliseconds, an integer that is non-negative when the clock reading at exit is not
  below the one at entry (\<^verbatim>\<open>perf_counter\<close> is monotonic).
\<close>

theorem function_timer_scope:
  assumes body: "body (fst (timer_enter clock w)) (snd (snd (timer_enter clock w))) = (res, w3)"
      and mono: "clock (clock_reads w) \<le> clock (clock_reads w3)"
  shows "store (snd (snd (timer_enter clock w))) (fst (timer_enter clock w)) = Map.empty
       \<and> 0 \<le> py_int ((clock (clock_reads w3) - clock (clock_reads w)) * 1000)
       \<and> function_timer clock body w =
            ((fst (timer_enter clock w), res),
             w3\<lparr>clock_reads := Suc (clock_reads w3),
                store := (store w3)(fst (timer_enter clock w) :=
                  (store w3 (fst (timer_enter clock w)))(''latency_ms'' \<mapsto>
                     py_int ((clock (clock_reads w3) - clock (clock_reads w)) * 1000)))\<rparr>)"
proof -
  obtain metrics start w2 where enter: "timer_enter clock w = (metrics, start, w2)"
    by (cases "timer_enter clock w") auto
  have start: "start = clock (clock_reads w)"
    using enter by (auto simp: timer_enter_def Let_def)
  have empty: "store w2 metrics = Map.empty"
    using enter by (auto simp: timer_enter_def Let_def)
  have b: "body metrics w2 = (res, w3)"
    using body enter by simp
  have nonneg: "0 \<le> py_int ((clock (clock_reads w3) - clock (clock_reads w)) * 1000)"
    using mono by (intro py_int_nonneg) simp
  have "function_timer clock body w =
      ((metrics, res),
       w3\<lparr>clock_reads := Suc (clock_reads w3),
          store := (store w3)(metrics := (store w3 metrics)(''latency_ms'' \<mapsto>
             py_int ((clock (clock_reads w3) - clock (clock_reads w)) * 1000)))\<rparr>)"
    by (simp add: function_timer_def enter b timer_exit_def Let_def start)
  then show ?thesis
    using empty enter nonneg by simp
qed

text \<open>
  The scope at a concrete input: the clock ticks 2.5 seconds per reading, the body raises.
  The raise comes out of the scope and the handle holds 2500.
\<close>

theorem function_timer_scope_witness:
  "fst (function_timer (\<lambda>n. real n * 2.5) (\<lambda>timing. (raise (Raised ''boom'') :: unit action)) world0)
     = (0, Inl (Raised ''boom''))
   \<and> store (snd (function_timer (\<lambda>n. real n * 2.5)
               (\<lambda>timing. (raise (Raised ''boom'') :: unit action)) world0)) 0
       = [''latency_ms'' \<mapsto> 2500]"
proof -
  let ?clock = "\<lambda>n. real n * 2.5"
  let ?w3 = "snd (snd (timer_enter ?clock world0))"
  have body: "(raise (Raised ''boom'') :: unit action) ?w3 = (Inl (Raised ''boom''), ?w3)"
    by (simp add: raise_def)
  have mono: "?clock (clock_reads world0) \<le> ?clock (clock_reads ?w3)"
    by (simp add: timer_enter_def world0_def Let_def)
  from function_timer_scope [of "\<lambda>timing. (raise (Raised ''boom'') :: unit action)" ?clock world0,
      OF body mono]
  show ?thesis
    by (simp add: timer_enter_def world0_def Let_def py_int_def)
qed

section \<open>Running actions\<close>

text \<open>How sequencing steps through each kind of statement.\<close>

lemma then_do_pure_Inr: "then_do (pure_call (Inr x)) f w = f x w"
  by (simp add: then_do_def pure_call_def)

lemma then_do_pure_Inl: "then_do (pure_call (Inl e)) f w = (Inl e, w)"
  by (simp add: then_do_def pure_call_def)

lemma then_do_returns: "then_do (returns x) f w = f x w"
  by (simp add: then_do_def returns_def)

lemma then_do_logger:
  "then_do (logger l msg lat) f w = f () (w\<lparr>events := events w @ [Log l msg lat]\<rparr>)"
  by (simp add: then_do_def logger_def)

lemma then_do_call_Inr:
  "g (events w) = Inr x \<Longrightarrow> then_do (call ev g) f w = f x (w\<lparr>events := events w @ [ev]\<rparr>)"
  by (simp add: then_do_def call_def)

lemma then_do_call_Inl:
  "g (events w) = Inl e \<Longrightarrow> then_do (call ev g) f w = (Inl e, w\<lparr>events := events w @ [ev]\<rparr>)"
  by (simp add: then_do_def call_def)

lemmas run_simps = then_do_pure_Inr then_do_pure_Inl then_do_returns then_do_logger

lemma split_nonempty: "split sep s \<noteq> []"
  by (induction s) (auto split: list.splits)

lemma split_last_no_sep: "sep \<notin> set (last (split sep s))"
  by (induction s) (auto simp: split_nonempty split: list.splits)

lemma split_no_sep: "sep \<notin> set s \<Longrightarrow> split sep s = [s]"
  by (induction s) auto

lemma split_single: "split sep s = [x] \<Longrightarrow> x = s"
proof (induction s arbitrary: x)
  case Nil
  then show ?case by simp
next
  case (Cons c cs)
  then show ?case
    by (cases "split sep cs") (auto simp: split_nonempty split: if_splits)
qed

lemma split_last_suffix:
  "\<exists>pre. s = pre @ last (split sep s) \<and> (pre = [] \<or> last pre = sep)"
proof (induction s)
  case Nil
  then show ?case by simp
next
  case (Cons c cs)
  then obtain pre where pre: "cs = pre @ last (split sep cs)" "pre = [] \<or> last pre = sep"
    by blast
  show ?case
  proof (cases "c = sep")
    case True
    then have "c # cs = (c # pre) @ last (split sep (c # cs))"
      using pre(1) by (simp add: split_nonempty)
    moreover have "last (c # pre) = sep"
      using pre(2) True by auto
    ultimately show ?thesis by blast
  next
    case False
    obtain s ss where sp: "split sep cs = s # ss"
      using split_nonempty [of sep cs] by (cases "split sep cs") auto
    show ?thesis
    proof (cases ss)
      case Nil
      then have "s = cs"
        using sp split_single by blast
      then have "last (split sep (c # cs)) = c # cs"
        using False sp Nil by simp
      then show ?thesis by (intro exI [of _ "[]"]) simp
    next
      case (Cons t ts)
      then have l: "last (split sep (c # cs)) = last (split sep cs)"
        using False sp by simp
      have "pre \<noteq> []"
      proof
        assume "pre = []"
        then have "sep \<notin> set cs"
          using pre(1) split_last_no_sep [of sep cs] by simp
        then show False
          using split_no_sep [of sep cs] sp Cons by simp
      qed
      then have "c # cs = (c # pre) @ last (split sep (c # cs))" "last (c # pre) = sep"
        using pre l by auto
      then show ?thesis by blast
    qed
  qed
qed

lemma try_except_Inr: "m w = (Inr x, w') \<Longrightarrow> try_except m h w = (Inr x, w')"
  by (simp add: try_except_def)

lemma try_except_Inl: "m w = (Inl e, w') \<Longrightarrow> try_except m h w = h e w'"
  by (simp add: try_except_def)

lemma index_last_split: "index_last (split sep s) = Inr (last (split sep s))"
  by (simp add: index_last_def split_nonempty)

lemma router_parse_fault:
  assumes "parse_gcs_uri env src = Inl e"
  shows "copy_to_failed_bucket env src msg w =
           (Inr (), w\<lparr>events := events w @ [Log ERROR ''Failed to copy to failed bucket'' None]\<rparr>)"
  unfolding copy_to_failed_bucket_def
  by (subst try_except_Inl [where e = e and w' = w])
     (simp_all add: assms run_simps logger_def)

lemma router_copy_fault:
  assumes "parse_gcs_uri env src = Inr (sb, sp)"
      and "storage_copy env (events w) sb sp (failed_bucket (config env))
             (last (split CHR ''/'' sp)) = Inl e"
  shows "copy_to_failed_bucket env src msg w =
           (Inr (), w\<lparr>events := events w @
              [Copy sb sp (failed_bucket (config env)) (last (split CHR ''/'' sp)),
               Log ERROR ''Failed to copy to failed bucket'' None]\<rparr>)"
  unfolding copy_to_failed_bucket_def
  by (subst try_except_Inl [where e = e and w' = "w\<lparr>events := events w @
              [Copy sb sp (failed_bucket (config env)) (last (split CHR ''/'' sp))]\<rparr>"])
     (simp_all add: assms run_simps logger_def index_last_split then_do_call_Inl)

lemma router_write_fault:
  assumes "parse_gcs_uri env src = Inr (sb, sp)"
      and "storage_copy env (events w) sb sp (failed_bucket (config env))
             (last (split CHR ''/'' sp)) = Inr uri"
      and "storage_write env
             (events w @ [Copy sb sp (failed_bucket (config env)) (last (split CHR ''/'' sp))])
             (failed_bucket (config env)) (last (split CHR ''/'' sp) @ ''.error.json'')
             (json_dumps env (error_record src msg)) ''application/json'' = Inl e"
  shows "copy_to_failed_bucket env src msg w =
           (Inr (), w\<lparr>events := events w @
              [Copy sb sp (failed_bucket (config env)) (last (split CHR ''/'' sp)),
               Write (failed_bucket (config env)) (last (split CHR ''/'' sp) @ ''.error.json'')
                 (json_dumps env (error_record src msg)) ''application/json'',
               Log ERROR ''Failed to copy to failed bucket'' None]\<rparr>)"
  unfolding copy_to_failed_bucket_def
  by (subst try_except_Inl [where e = e and w' = "w\<lparr>events := events w @
              [Copy sb sp (failed_bucket (config env)) (last (split CHR ''/'' sp)),
               Write (failed_bucket (config env)) (last (split CHR ''/'' sp) @ ''.error.json'')
                 (json_dumps env (error_record src msg)) ''application/json'']\<rparr>"])
     (simp_all add: assms run_simps logger_def index_last_split then_do_call_Inl then_do_call_Inr)

lemma router_done:
  assumes "parse_gcs_uri env src = Inr (sb, sp)"
      and "storage_copy env (events w) sb sp (failed_bucket (config env))
             (last (split CHR ''/'' sp)) = Inr uri"
      and "storage_write env
             (events w @ [Copy sb sp (failed_bucket (config env)) (last (split CHR ''/'' sp))])
             (failed_bucket (config env)) (last (split CHR ''/'' sp) @ ''.error.json'')
             (json_dumps env (error_record src msg)) ''application/json'' = Inr u"
  shows "copy_to_failed_bucket env src msg w =
           (Inr (), w\<lparr>events := events w @
              [Copy sb sp (failed_bucket (config env)) (last (split CHR ''/'' sp)),
               Write (failed_bucket (config env)) (last (split CHR ''/'' sp) @ ''.error.json'')
                 (json_dumps env (error_record src msg)) ''application/json'',
               Log INFO ''Copied failed invoice to failed bucket'' None]\<rparr>)"
  unfolding copy_to_failed_bucket_def
  by (subst try_except_Inr [where x = "()" and w' = "w\<lparr>events := events w @
              [Copy sb sp (failed_bucket (config env)) (last (split CHR ''/'' sp)),
               Write (failed_bucket (config env)) (last (split CHR ''/'' sp) @ ''.error.json'')
                 (json_dumps env (error_record src msg)) ''application/json'',
               Log INFO ''Copied failed invoice to failed bucket'' None]\<rparr>"])
     (simp_all add: assms run_simps logger_def index_last_split then_do_call_Inl then_do_call_Inr)

lemma new_events_append: "events w' = events w @ new \<Longrightarrow> new_events w w' = new"
  by (simp add: new_events_def)

lemmas sample_defs = sample_env_def sample_parse_uri_def sample_classified_def
  sample_converted_def sample_trace_def sample_failure_def sample_success_def
  classified_event_def converted_event_def malformed_event_def world0_def

section \<open>Properties of the failure router\<close>

text \<open>
  C5. Given a source identifier that the URI parser splits into bucket and path, the
  router first copies that object into the failure bucket under the last segment of the
  path: a name without any slash, so at the bucket root, and the path is some prefix
  (empty or ending in a slash) followed by that name. When the copy returns, the next call
  writes, into the failure bucket under that name followed by \<^verbatim>\<open>.error.json\<close>, the
  JSON dump of the object with exactly the two fields \<^verbatim>\<open>source_file\<close> (the source
  identifier as given) and \<^verbatim>\<open>error\<close> (the error message as given), with content type
  \<^verbatim>\<open>application/json\<close>.
\<close>

theorem failure_router_flattens:
  assumes parse: "parse_gcs_uri env src = Inr (sb, sp)"
  shows "CHR ''/'' \<notin> set (last (split CHR ''/'' sp))
       \<and> (\<exists>pre. sp = pre @ last (split CHR ''/'' sp) \<and> (pre = [] \<or> last pre = CHR ''/''))
       \<and> take 1 (new_events w (snd (copy_to_failed_bucket env src error_message w)))
           = [Copy sb sp (failed_bucket (config env)) (last (split CHR ''/'' sp))]
       \<and> (\<not> isl (storage_copy env (events w) sb sp (failed_bucket (config env))
                    (last (split CHR ''/'' sp)))
            \<longrightarrow> take 2 (new_events w (snd (copy_to_failed_bucket env src error_message w)))
                  = [Copy sb sp (failed_bucket (config env)) (last (split CHR ''/'' sp)),
                     Write (failed_bucket (config env))
                       (last (split CHR ''/'' sp) @ ''.error.json'')
                       (json_dumps env (JObj [(''source_file'', JStr src),
                                              (''error'', JStr error_message)]))
                       ''application/json''])"
proof -
  let ?fn = "last (split CHR ''/'' sp)"
  let ?fb = "failed_bucket (config env)"
  let ?run = "copy_to_failed_bucket env src error_message w"
  let ?copy = "Copy sb sp ?fb ?fn"
  let ?wr = "Write ?fb (?fn @ ''.error.json'')
                  (json_dumps env (error_record src error_message)) ''application/json''"
  have flat: "CHR ''/'' \<notin> set ?fn"
    by (rule split_last_no_sep)
  have suffix: "\<exists>pre. sp = pre @ ?fn \<and> (pre = [] \<or> last pre = CHR ''/'')"
    by (rule split_last_suffix)
  have first: "take 1 (new_events w (snd ?run)) = [?copy]"
   and both: "\<not> isl (storage_copy env (events w) sb sp ?fb ?fn)
              \<Longrightarrow> take 2 (new_events w (snd ?run)) = [?copy, ?wr]"
  proof -
    show "take 1 (new_events w (snd ?run)) = [?copy]"
    proof (cases "storage_copy env (events w) sb sp ?fb ?fn")
      case (Inl e)
      show ?thesis
        by (simp add: router_copy_fault [OF parse Inl] new_events_def)
    next
      case copied: (Inr uri)
      show ?thesis
      proof (cases "storage_write env (events w @ [?copy]) ?fb (?fn @ ''.error.json'')
                      (json_dumps env (error_record src error_message)) ''application/json''")
        case (Inl e)
        show ?thesis
          by (simp add: router_write_fault [OF parse copied Inl] new_events_def)
      next
        case (Inr u)
        show ?thesis
          by (simp add: router_done [OF parse copied Inr] new_events_def)
      qed
    qed
  next
    assume "\<not> isl (storage_copy env (events w) sb sp ?fb ?fn)"
    then obtain uri where copied: "storage_copy env (events w) sb sp ?fb ?fn = Inr uri"
      by (cases "storage_copy env (events w) sb sp ?fb ?fn") auto
    show "take 2 (new_events w (snd ?run)) = [?copy, ?wr]"
    proof (cases "storage_write env (events w @ [?copy]) ?fb (?fn @ ''.error.json'')
                    (json_dumps env (error_record src error_message)) ''application/json''")
      case (Inl e)
      show ?thesis
        by (simp add: router_write_fault [OF parse copied Inl] new_events_def)
    next
      case (Inr u)
      show ?thesis
        by (simp add: router_done [OF parse copied Inr] new_events_def)
    qed
  qed
  show ?thesis
    using flat suffix first both by (simp add: error_record_def)
qed

text \<open>The router on the sample environment, for a source two levels deep.\<close>

theorem failure_router_flattens_witness:
  "take 2 (new_events world0 (snd (copy_to_failed_bucket (sample_env sample_failure)
      ''gs://landing/2024/a.tif'' ''no provider answered'' world0)))
   = [Copy ''landing'' ''2024/a.tif'' ''failed'' ''a.tif'',
      Write ''failed'' ''a.tif.error.json''
        ''source_file=gs://landing/2024/a.tif;error=no provider answered'' ''application/json'']"
proof -
  have parse: "parse_gcs_uri (sample_env sample_failure) ''gs://landing/2024/a.tif''
                 = Inr (''landing'', ''2024/a.tif'')"
    by (simp add: sample_defs)
  from failure_router_flattens [OF parse, of world0 "''no provider answered''"]
  show ?thesis
    by (simp add: sample_defs)
qed


text \<open>
  C9. The calls the router issues, by where it faults. A source identifier the parser
  rejects gives no call at all. Otherwise the copy comes first; if the copy faults, no
  write is issued; if the copy returns and the write faults, the calls are the copy and
  the write attempt. In every case a write is issued only after the copy has returned,
  and it directly follows the copy.
\<close>

theorem failure_router_copy_before_record:
  "(isl (parse_gcs_uri env src)
      \<longrightarrow> new_events w (snd (copy_to_failed_bucket env src error_message w))
            = [Log ERROR ''Failed to copy to failed bucket'' None])
   \<and> (parse_gcs_uri env src = Inr (sb, sp) \<longrightarrow>
        (isl (storage_copy env (events w) sb sp (failed_bucket (config env))
                (last (split CHR ''/'' sp)))
           \<longrightarrow> new_events w (snd (copy_to_failed_bucket env src error_message w))
                 = [Copy sb sp (failed_bucket (config env)) (last (split CHR ''/'' sp)),
                    Log ERROR ''Failed to copy to failed bucket'' None])
      \<and> (\<not> isl (storage_copy env (events w) sb sp (failed_bucket (config env))
                   (last (split CHR ''/'' sp)))
           \<and> isl (storage_write env
                    (events w @ [Copy sb sp (failed_bucket (config env))
                                   (last (split CHR ''/'' sp))])
                    (failed_bucket (config env)) (last (split CHR ''/'' sp) @ ''.error.json'')
                    (json_dumps env (error_record src error_message)) ''application/json'')
           \<longrightarrow> new_events w (snd (copy_to_failed_bucket env src error_message w))
                 = [Copy sb sp (failed_bucket (config env)) (last (split CHR ''/'' sp)),
                    Write (failed_bucket (config env))
                      (last (split CHR ''/'' sp) @ ''.error.json'')
                      (json_dumps env (error_record src error_message)) ''application/json'',
                    Log ERROR ''Failed to copy to failed bucket'' None])
      \<and> (list_ex is_write (new_events w (snd (copy_to_failed_bucket env src error_message w)))
           \<longrightarrow> \<not> isl (storage_copy env (events w) sb sp (failed_bucket (config env))
                        (last (split CHR ''/'' sp)))
               \<and> take 2 (new_events w (snd (copy_to_failed_bucket env src error_message w)))
                 = [Copy sb sp (failed_bucket (config env)) (last (split CHR ''/'' sp)),
                    Write (failed_bucket (config env))
                      (last (split CHR ''/'' sp) @ ''.error.json'')
                      (json_dumps env (error_record src error_message)) ''application/json'']))"
proof -
  let ?fn = "last (split CHR ''/'' sp)"
  let ?fb = "failed_bucket (config env)"
  let ?new = "new_events w (snd (copy_to_failed_bucket env src error_message w))"
  let ?copy = "Copy sb sp ?fb ?fn"
  let ?data = "json_dumps env (error_record src error_message)"
  let ?wr = "Write ?fb (?fn @ ''.error.json'') ?data ''application/json''"
  let ?failed = "Log ERROR ''Failed to copy to failed bucket'' None"
  let ?copied = "storage_copy env (events w) sb sp ?fb ?fn"
  let ?wr_answer = "storage_write env (events w @ [?copy]) ?fb (?fn @ ''.error.json'') ?data
                    ''application/json''"
  have unparsed: "isl (parse_gcs_uri env src) \<longrightarrow> ?new = [?failed]"
  proof
    assume "isl (parse_gcs_uri env src)"
    then obtain e where "parse_gcs_uri env src = Inl e"
      by (cases "parse_gcs_uri env src") auto
    then show "?new = [?failed]"
      by (simp add: router_parse_fault new_events_def)
  qed
  have parsed: "(isl ?copied \<longrightarrow> ?new = [?copy, ?failed])
      \<and> (\<not> isl ?copied \<and> isl ?wr_answer \<longrightarrow> ?new = [?copy, ?wr, ?failed])
      \<and> (list_ex is_write ?new \<longrightarrow> \<not> isl ?copied \<and> take 2 ?new = [?copy, ?wr])"
    if parse: "parse_gcs_uri env src = Inr (sb, sp)"
  proof (cases ?copied)
    case (Inl e)
    have "?new = [?copy, ?failed]"
      by (simp add: router_copy_fault [OF parse Inl] new_events_def)
    then show ?thesis
      using Inl by simp
  next
    case copied: (Inr uri)
    show ?thesis
    proof (cases ?wr_answer)
      case (Inl e)
      have "?new = [?copy, ?wr, ?failed]"
        by (simp add: router_write_fault [OF parse copied Inl] new_events_def)
      then show ?thesis
        using copied Inl by simp
    next
      case (Inr u)
      have "?new = [?copy, ?wr, Log INFO ''Copied failed invoice to failed bucket'' None]"
        by (simp add: router_done [OF parse copied Inr] new_events_def)
      then show ?thesis
        using copied Inr by simp
    qed
  qed
  show ?thesis
    using unparsed parsed by blast
qed

text \<open>
  Three runs of the router on the sample environment: the copy faults, only the write
  faults, and the URI is not a storage URI.
\<close>

theorem failure_router_copy_before_record_witness:
  "new_events world0 (snd (copy_to_failed_bucket
       ((sample_env sample_failure)\<lparr>storage_copy := \<lambda>h sb sp db dp. Inl (Raised ''NotFound'')\<rparr>)
       ''gs://landing/2024/a.tif'' ''boom'' world0))
     = [Copy ''landing'' ''2024/a.tif'' ''failed'' ''a.tif'',
        Log ERROR ''Failed to copy to failed bucket'' None]
   \<and> new_events world0 (snd (copy_to_failed_bucket
       ((sample_env sample_failure)\<lparr>storage_write := \<lambda>h b p d c. Inl (Raised ''Forbidden'')\<rparr>)
       ''gs://landing/2024/a.tif'' ''boom'' world0))
     = [Copy ''landing'' ''2024/a.tif'' ''failed'' ''a.tif'',
        Write ''failed'' ''a.tif.error.json'' ''source_file=gs://landing/2024/a.tif;error=boom''
          ''application/json'',
        Log ERROR ''Failed to copy to failed bucket'' None]
   \<and> new_events world0 (snd (copy_to_failed_bucket (sample_env sample_failure)
       ''a.tif'' ''boom'' world0))
     = [Log ERROR ''Failed to copy to failed bucket'' None]"
proof -
  let ?no_copy = "(sample_env sample_failure)\<lparr>storage_copy := \<lambda>h sb sp db dp. Inl (Raised ''NotFound'')\<rparr>"
  let ?no_write = "(sample_env sample_failure)\<lparr>storage_write := \<lambda>h b p d c. Inl (Raised ''Forbidden'')\<rparr>"
  have a: "parse_gcs_uri ?no_copy ''gs://landing/2024/a.tif'' = Inr (''landing'', ''2024/a.tif'')"
    by (simp add: sample_defs)
  have b: "parse_gcs_uri ?no_write ''gs://landing/2024/a.tif'' = Inr (''landing'', ''2024/a.tif'')"
    by (simp add: sample_defs)
  have c: "isl (parse_gcs_uri (sample_env sample_failure) ''a.tif'')"
    by (simp add: sample_defs)
  from failure_router_copy_before_record
         [of ?no_copy "''gs://landing/2024/a.tif''" world0 "''boom''" "''landing''" "''2024/a.tif''"]
       failure_router_copy_before_record
         [of ?no_write "''gs://landing/2024/a.tif''" world0 "''boom''" "''landing''" "''2024/a.tif''"]
       failure_router_copy_before_record
         [of "sample_env sample_failure" "''a.tif''" world0 "''boom''"]
       a b c
  show ?thesis
    by (simp add: sample_defs error_record_def)
qed

section \<open>The handlers around their \<^verbatim>\<open>try\<close> block\<close>

text \<open>The timer leaves the call history alone, and the handle read after the block has the key.\<close>

lemma events_entered: "events (entered env w) = events w"
  by (simp add: entered_def timer_enter_def Let_def)

lemma events_timer_exit: "events (timer_exit clock metrics start w) = events w"
  by (simp add: timer_exit_def Let_def)

lemma read_latency_timer_exit:
  "read_latency metrics (timer_exit clock metrics start w) =
     (Inr (py_int ((clock (clock_reads w) - start) * 1000)), timer_exit clock metrics start w)"
  by (simp add: read_latency_def timer_exit_def Let_def getitem_def)

lemma function_timer_entered:
  assumes "body (allocated w) (entered env w) = (res, w3)"
  shows "function_timer (perf_counter env) body w =
           ((allocated w, res),
            timer_exit (perf_counter env) (allocated w) (perf_counter env (clock_reads w)) w3)"
  using assms by (simp add: function_timer_def entered_def timer_enter_def Let_def)

lemma classified_with_body_Inr:
  assumes "classified_try env ce w2 = (Inr fl, w1)"
  shows "classified_with_body env ce w2 = (Inr (fl, None), w1)"
proof -
  have "then_do (classified_try env ce) (\<lambda>fl. returns (fl, None :: exn option)) w2 = (Inr (fl, None), w1)"
    by (simp add: then_do_def assms returns_def)
  then show ?thesis
    by (simp add: classified_with_body_def try_except_def)
qed

lemma classified_with_body_Inl:
  assumes "classified_try env ce w2 = (Inl e, w1)"
  shows "classified_with_body env ce w2 =
           (case observer_flush env (events w1) of
              Inl e' \<Rightarrow> (Inl e', w1\<lparr>events := events w1 @ [Flush]\<rparr>)
            | Inr u \<Rightarrow> (Inr (Completed, Some e), w1\<lparr>events := events w1 @ [Flush]\<rparr>))"
proof -
  have t: "then_do (classified_try env ce) (\<lambda>fl. returns (fl, None :: exn option)) w2 = (Inl e, w1)"
    by (simp add: then_do_def assms)
  have "classified_with_body env ce w2 =
          then_do (call Flush (observer_flush env)) (\<lambda>_. returns (Completed, Some e)) w1"
    by (simp add: classified_with_body_def try_except_def t)
  then show ?thesis
    by (simp add: then_do_def call_def returns_def split: sum.splits)
qed

lemma handle_classified_returned:
  assumes "classified_try env ce (entered env w) = (Inr Returned, w1)"
  shows "fst (handle_invoice_classified env ce w) = Inr ()"
    and "events (snd (handle_invoice_classified env ce w)) = events w1"
  using function_timer_entered [of "\<lambda>timing. classified_with_body env ce", OF classified_with_body_Inr [OF assms]]
  by (simp_all add: handle_invoice_classified_def returns_def events_timer_exit)

lemma handle_classified_completed:
  assumes "classified_try env ce (entered env w) = (Inr Completed, w1)"
  shows "fst (handle_invoice_classified env ce w) = Inr ()"
    and "events (snd (handle_invoice_classified env ce w)) =
           events w1 @ [Log INFO ''Extraction complete - published event'' (Some (elapsed env w w1))]"
  using function_timer_entered [of "\<lambda>timing. classified_with_body env ce", OF classified_with_body_Inr [OF assms]]
  by (simp_all add: handle_invoice_classified_def classified_complete_def then_do_def
        read_latency_timer_exit logger_def events_timer_exit elapsed_def)

lemma handle_classified_raised:
  assumes "classified_try env ce (entered env w) = (Inl e, w1)"
      and "observer_flush env (events w1) = Inr u"
      and "truthy e"
  shows "fst (handle_invoice_classified env ce w) = Inl e"
    and "events (snd (handle_invoice_classified env ce w)) =
           events w1 @ [Flush, LogException ''Extraction processing failed'' e
                                 (Some (elapsed env w w1))]"
proof -
  have "classified_with_body env ce (entered env w) =
          (Inr (Completed, Some e), w1\<lparr>events := events w1 @ [Flush]\<rparr>)"
    by (simp add: classified_with_body_Inl [OF assms(1)] assms(2))
  from function_timer_entered [of "\<lambda>timing. classified_with_body env ce", OF this]
  show "fst (handle_invoice_classified env ce w) = Inl e"
    and "events (snd (handle_invoice_classified env ce w)) =
           events w1 @ [Flush, LogException ''Extraction processing failed'' e
                                 (Some (elapsed env w w1))]"
    by (simp_all add: handle_invoice_classified_def classified_reraise_def assms(3) then_do_def
          read_latency_timer_exit logger_exception_def raise_def events_timer_exit elapsed_def)
qed

text \<open>A false exception object fails the test of line 214.\<close>

lemma handle_classified_dropped:
  assumes "classified_try env ce (entered env w) = (Inl e, w1)"
      and "observer_flush env (events w1) = Inr u"
      and "\<not> truthy e"
  shows "fst (handle_invoice_classified env ce w) = Inr ()"
    and "events (snd (handle_invoice_classified env ce w)) =
           events w1 @ [Flush, Log INFO ''Extraction complete - published event''
                                 (Some (elapsed env w w1))]"
proof -
  have "classified_with_body env ce (entered env w) =
          (Inr (Completed, Some e), w1\<lparr>events := events w1 @ [Flush]\<rparr>)"
    by (simp add: classified_with_body_Inl [OF assms(1)] assms(2))
  from function_timer_entered [of "\<lambda>timing. classified_with_body env ce", OF this]
  show "fst (handle_invoice_classified env ce w) = Inr ()"
    and "events (snd (handle_invoice_classified env ce w)) =
           events w1 @ [Flush, Log INFO ''Extraction complete - published event''
                                 (Some (elapsed env w w1))]"
    by (simp_all add: handle_invoice_classified_def classified_complete_def assms(3) then_do_def
          read_latency_timer_exit logger_def events_timer_exit elapsed_def)
qed

lemma handle_classified_flush_raised:
  assumes "classified_try env ce (entered env w) = (Inl e, w1)"
      and "observer_flush env (events w1) = Inl e'"
  shows "fst (handle_invoice_classified env ce w) = Inl e'"
    and "events (snd (handle_invoice_classified env ce w)) = events w1 @ [Flush]"
proof -
  have "classified_with_body env ce (entered env w) =
          (Inl e', w1\<lparr>events := events w1 @ [Flush]\<rparr>)"
    by (simp add: classified_with_body_Inl [OF assms(1)] assms(2))
  from function_timer_entered [of "\<lambda>timing. classified_with_body env ce", OF this]
  show "fst (handle_invoice_classified env ce w) = Inl e'"
    and "events (snd (handle_invoice_classified env ce w)) = events w1 @ [Flush]"
    by (simp_all add: handle_invoice_classified_def raise_def events_timer_exit)
qed


lemma converted_with_body_Inr:
  assumes "converted_try env ce w2 = (Inr u, w1)"
  shows "converted_with_body env ce w2 = (Inr None, w1)"
proof -
  have "then_do (converted_try env ce) (\<lambda>_. returns (None :: exn option)) w2 = (Inr None, w1)"
    by (simp add: then_do_def assms returns_def)
  then show ?thesis
    by (simp add: converted_with_body_def try_except_def)
qed

lemma converted_with_body_Inl:
  assumes "converted_try env ce w2 = (Inl e, w1)"
  shows "converted_with_body env ce w2 = (Inr (Some e), w1)"
proof -
  have "then_do (converted_try env ce) (\<lambda>_. returns (None :: exn option)) w2 = (Inl e, w1)"
    by (simp add: then_do_def assms)
  then show ?thesis
    by (simp add: converted_with_body_def try_except_def returns_def)
qed

lemma handle_converted_completed:
  assumes "converted_try env ce (entered env w) = (Inr u, w1)"
  shows "fst (handle_invoice_converted env ce w) = Inr ()"
    and "events (snd (handle_invoice_converted env ce w)) =
           events w1 @ [Log INFO ''Classification complete - published event''
                          (Some (elapsed env w w1))]"
  using function_timer_entered [of "\<lambda>timing. converted_with_body env ce", OF converted_with_body_Inr [OF assms]]
  by (simp_all add: handle_invoice_converted_def converted_complete_def then_do_def
        read_latency_timer_exit logger_def events_timer_exit elapsed_def)

lemma handle_converted_raised:
  assumes "converted_try env ce (entered env w) = (Inl e, w1)"
      and "truthy e"
  shows "fst (handle_invoice_converted env ce w) = Inl e"
    and "events (snd (handle_invoice_converted env ce w)) =
           events w1 @ [LogException ''Classification failed'' e (Some (elapsed env w w1))]"
  using function_timer_entered [of "\<lambda>timing. converted_with_body env ce",
          OF converted_with_body_Inl [OF assms(1)]]
  by (simp_all add: handle_invoice_converted_def converted_reraise_def assms(2) then_do_def
        read_latency_timer_exit logger_exception_def raise_def events_timer_exit elapsed_def)

text \<open>A false exception object fails the test of line 147.\<close>

lemma handle_converted_dropped:
  assumes "converted_try env ce (entered env w) = (Inl e, w1)"
      and "\<not> truthy e"
  shows "fst (handle_invoice_converted env ce w) = Inr ()"
    and "events (snd (handle_invoice_converted env ce w)) =
           events w1 @ [Log INFO ''Classification complete - published event''
                          (Some (elapsed env w w1))]"
  using function_timer_entered [of "\<lambda>timing. converted_with_body env ce",
          OF converted_with_body_Inl [OF assms(1)]]
  by (simp_all add: handle_invoice_converted_def converted_complete_def assms(2) then_do_def
        read_latency_timer_exit logger_def events_timer_exit elapsed_def)

section \<open>Rejected messages\<close>

text \<open>What the decoding steps raise is a true exception object.\<close>

lemma decode_classified_truthy:
  assumes "decode_classified env ce = Inl e"
  shows "truthy e"
  using assms
  by (auto simp: decode_classified_def and_then_def getitem_def raising_def
           split: option.splits sum.splits)

lemma decode_converted_truthy:
  assumes "decode_converted env ce = Inl e"
  shows "truthy e"
  using assms
  by (auto simp: decode_converted_def and_then_def getitem_def raising_def
           split: option.splits sum.splits)

lemma classified_try_undecoded:
  assumes "decode_classified env ce = Inl e"
  shows "classified_try env ce w = (Inl e, w)"
  by (simp add: classified_try_def classified_prepare_def then_do_def pure_call_def assms)

lemma converted_try_undecoded:
  assumes "decode_converted env ce = Inl e"
  shows "converted_try env ce w = (Inl e, w)"
  by (simp add: converted_try_def converted_prepare_def then_do_def pure_call_def assms)

text \<open>
  C2. When the body of the bus message cannot be decoded and validated (a missing key, a
  base64 or JSON fault, or the message model rejecting it), either handler raises, and the
  calls it has issued by then are no storage read, copy or write, no publish, no
  extraction and no trace score: the classification handler only logs the exception, the
  extraction handler flushes the observer and logs the exception.
\<close>

theorem invalid_message_no_side_effect:
  "(decode_classified env ce = Inl e \<longrightarrow>
      isl (fst (handle_invoice_classified env ce w))
      \<and> list_all (\<lambda>ev. \<not> side_effect ev)
           (new_events w (snd (handle_invoice_classified env ce w))))
   \<and> (decode_converted env ce' = Inl e' \<longrightarrow>
      fst (handle_invoice_converted env ce' w') = Inl e'
      \<and> list_all (\<lambda>ev. \<not> side_effect ev)
           (new_events w' (snd (handle_invoice_converted env ce' w'))))"
proof (intro conjI impI)
  assume bad: "decode_classified env ce = Inl e"
  have true: "truthy e"
    by (rule decode_classified_truthy [OF bad])
  have t: "classified_try env ce (entered env w) = (Inl e, entered env w)"
    by (rule classified_try_undecoded [OF bad])
  show "isl (fst (handle_invoice_classified env ce w))"
  proof (cases "observer_flush env (events (entered env w))")
    case (Inl x)
    then show ?thesis by (simp add: handle_classified_flush_raised(1) [OF t])
  next
    case (Inr u)
    then show ?thesis by (simp add: handle_classified_raised(1) [OF t _ true])
  qed
  show "list_all (\<lambda>ev. \<not> side_effect ev)
          (new_events w (snd (handle_invoice_classified env ce w)))"
  proof (cases "observer_flush env (events (entered env w))")
    case (Inl x)
    then show ?thesis
      by (simp add: handle_classified_flush_raised(2) [OF t] new_events_def events_entered)
  next
    case (Inr u)
    then show ?thesis
      by (simp add: handle_classified_raised(2) [OF t _ true] new_events_def events_entered)
  qed
next
  assume bad: "decode_converted env ce' = Inl e'"
  have true: "truthy e'"
    by (rule decode_converted_truthy [OF bad])
  have t: "converted_try env ce' (entered env w') = (Inl e', entered env w')"
    by (rule converted_try_undecoded [OF bad])
  show "fst (handle_invoice_converted env ce' w') = Inl e'"
    by (simp add: handle_converted_raised(1) [OF t true])
  show "list_all (\<lambda>ev. \<not> side_effect ev)
          (new_events w' (snd (handle_invoice_converted env ce' w')))"
    by (simp add: handle_converted_raised(2) [OF t true] new_events_def events_entered)
qed

text \<open>Everything to unfold for a run on concrete inputs.\<close>

lemmas handler_defs = handle_invoice_classified_def handle_invoice_converted_def
  function_timer_def timer_enter_def timer_exit_def entered_def elapsed_def py_int_def
  classified_with_body_def classified_try_def classified_prepare_def classified_failure_def
  classified_success_def score_extraction_def extracted_of_def construct_def str_int_def
  decode_classified_def decode_converted_def and_then_def getitem_def or_else_def
  converted_with_body_def converted_try_def converted_prepare_def converted_finish_def
  copy_to_failed_bucket_def error_record_def index_last_def read_latency_def raising_def
  classified_reraise_def classified_complete_def converted_reraise_def converted_complete_def
  then_do_def try_except_def pure_call_def call_def logger_def logger_exception_def
  returns_def raise_def new_events_def Let_def

text \<open>Both handlers on a message the sample validators reject.\<close>

theorem invalid_message_no_side_effect_witness:
  "isl (fst (handle_invoice_classified (sample_env sample_success) malformed_event world0))
   \<and> new_events world0 (snd (handle_invoice_classified (sample_env sample_success)
        malformed_event world0))
      = [Flush, LogException ''Extraction processing failed'' (Raised ''ValidationError'')
                  (Some 2500)]
   \<and> fst (handle_invoice_converted (sample_env sample_success) malformed_event world0)
      = Inl (Raised ''ValidationError'')
   \<and> new_events world0 (snd (handle_invoice_converted (sample_env sample_success)
        malformed_event world0))
      = [LogException ''Classification failed'' (Raised ''ValidationError'') (Some 2500)]"
proof -
  have a: "decode_classified (sample_env sample_success) malformed_event
             = Inl (Raised ''ValidationError'')"
    by (simp add: decode_classified_def and_then_def getitem_def raising_def sample_defs)
  have b: "decode_converted (sample_env sample_success) malformed_event
             = Inl (Raised ''ValidationError'')"
    by (simp add: decode_converted_def and_then_def getitem_def raising_def sample_defs)
  from invalid_message_no_side_effect
         [of "sample_env sample_success" malformed_event "Raised ''ValidationError''" world0
             malformed_event "Raised ''ValidationError''" world0] a b
  show ?thesis
    by (simp add: handler_defs sample_defs)
qed

section \<open>The fault path of the extraction handler\<close>

text \<open>
  The fault path in full. When an exception \<open>e\<close> leaves the \<^verbatim>\<open>try\<close> block of the
  extraction handler, the handler calls \<^verbatim>\<open>observer.flush()\<close> once. If that call returns
  and \<open>e\<close> is a true object, the exception is logged with the elapsed time and \<open>e\<close> is
  raised to the caller. If that call returns and \<open>e\<close> is a false object, the test of line
  214 fails: completion is logged and the handler returns. If that call itself raises
  \<open>e'\<close>, nothing is logged and \<open>e'\<close> reaches the caller in place of \<open>e\<close>.
\<close>

theorem extraction_fault_path_flushes:
  assumes "classified_try env ce (entered env w) = (Inl e, w1)"
  shows "(\<not> isl (observer_flush env (events w1)) \<and> truthy e \<longrightarrow>
            fst (handle_invoice_classified env ce w) = Inl e
            \<and> events (snd (handle_invoice_classified env ce w)) =
                events w1 @ [Flush, LogException ''Extraction processing failed'' e
                                      (Some (elapsed env w w1))])
       \<and> (\<not> isl (observer_flush env (events w1)) \<and> \<not> truthy e \<longrightarrow>
            fst (handle_invoice_classified env ce w) = Inr ()
            \<and> events (snd (handle_invoice_classified env ce w)) =
                events w1 @ [Flush, Log INFO ''Extraction complete - published event''
                                      (Some (elapsed env w w1))])
       \<and> (observer_flush env (events w1) = Inl e' \<longrightarrow>
            fst (handle_invoice_classified env ce w) = Inl e'
            \<and> events (snd (handle_invoice_classified env ce w)) = events w1 @ [Flush])"
proof (intro conjI impI)
  assume "\<not> isl (observer_flush env (events w1)) \<and> truthy e"
  then have ok: "observer_flush env (events w1) = Inr ()" and true: "truthy e"
    by (cases "observer_flush env (events w1)"; simp)+
  show "fst (handle_invoice_classified env ce w) = Inl e"
    by (rule handle_classified_raised(1) [OF assms ok true])
  show "events (snd (handle_invoice_classified env ce w)) =
          events w1 @ [Flush, LogException ''Extraction processing failed'' e
                                (Some (elapsed env w w1))]"
    by (rule handle_classified_raised(2) [OF assms ok true])
next
  assume "\<not> isl (observer_flush env (events w1)) \<and> \<not> truthy e"
  then have ok: "observer_flush env (events w1) = Inr ()" and false: "\<not> truthy e"
    by (cases "observer_flush env (events w1)"; simp)+
  show "fst (handle_invoice_classified env ce w) = Inr ()"
    by (rule handle_classified_dropped(1) [OF assms ok false])
  show "events (snd (handle_invoice_classified env ce w)) =
          events w1 @ [Flush, Log INFO ''Extraction complete - published event''
                                (Some (elapsed env w w1))]"
    by (rule handle_classified_dropped(2) [OF assms ok false])
next
  assume bad: "observer_flush env (events w1) = Inl e'"
  show "fst (handle_invoice_classified env ce w) = Inl e'"
    by (rule handle_classified_flush_raised(1) [OF assms bad])
  show "events (snd (handle_invoice_classified env ce w)) = events w1 @ [Flush]"
    by (rule handle_classified_flush_raised(2) [OF assms bad])
qed

text \<open>
  A rejected message with a working observer; and a publish that fails followed by a
  flush that fails, where the caller sees the fault of the flush.
\<close>

theorem extraction_fault_path_flushes_witness:
  "handle_invoice_classified (sample_env sample_success) malformed_event world0
     = (Inl (Raised ''ValidationError''),
        \<lparr>events = [Flush, LogException ''Extraction processing failed''
                             (Raised ''ValidationError'') (Some 2500)],
         store = (\<lambda>_. Map.empty)(0 := [''latency_ms'' \<mapsto> 2500]),
         allocated = 1, clock_reads = 2\<rparr>)
   \<and> fst (handle_invoice_classified
        ((sample_env sample_success)
           \<lparr>messaging_publish := \<lambda>h topic p. Inl (Raised ''bus down''),
            observer_flush := \<lambda>h. Inl (Raised ''flush timeout'')\<rparr>)
        classified_event world0)
      = Inl (Raised ''flush timeout'')
   \<and> last (events (snd (handle_invoice_classified
        ((sample_env sample_success)
           \<lparr>messaging_publish := \<lambda>h topic p. Inl (Raised ''bus down''),
            observer_flush := \<lambda>h. Inl (Raised ''flush timeout'')\<rparr>)
        classified_event world0)))
      = Flush"
proof -
  let ?env = "sample_env sample_success"
  let ?down = "?env\<lparr>messaging_publish := \<lambda>h topic p. Inl (Raised ''bus down''),
                     observer_flush := \<lambda>h. Inl (Raised ''flush timeout'')\<rparr>"
  have a: "classified_try ?env malformed_event (entered ?env world0)
             = (Inl (Raised ''ValidationError''), entered ?env world0)"
    by (simp add: handler_defs sample_defs)
  have b: "classified_try ?down classified_event (entered ?down world0)
             = (Inl (Raised ''bus down''),
                snd (classified_try ?down classified_event (entered ?down world0)))"
    by (simp add: prod_eq_iff handler_defs sample_defs)
  from extraction_fault_path_flushes [OF a, of "Raised ''never''"]
       extraction_fault_path_flushes [OF b, of "Raised ''flush timeout''"]
  show ?thesis
    by (simp add: handler_defs sample_defs)
qed


section \<open>What an action can append to the history\<close>

lemma emitsI:
  assumes "\<And>w. \<exists>new. events (snd (m w)) = events w @ new \<and> list_all P new"
  shows "emits P m"
  using assms by (simp add: emits_def)

lemma emitsD:
  assumes "emits P m"
  obtains new where "events (snd (m w)) = events w @ new" and "list_all P new"
  using assms unfolding emits_def by blast

lemma emits_run:
  assumes "emits P m" and "m w = (r, w')"
  shows "\<exists>new. events w' = events w @ new \<and> list_all P new"
  using assms unfolding emits_def by (metis snd_conv)

lemma emits_returns: "emits P (returns x)"
  by (simp add: emits_def returns_def)

lemma emits_raise: "emits P (raise e)"
  by (simp add: emits_def raise_def)

lemma emits_pure_call: "emits P (pure_call r)"
  by (simp add: emits_def pure_call_def)

lemma emits_logger: "P (Log l msg lat) \<Longrightarrow> emits P (logger l msg lat)"
  by (simp add: emits_def logger_def)

lemma emits_logger_exception: "P (LogException msg e lat) \<Longrightarrow> emits P (logger_exception msg e lat)"
  by (simp add: emits_def logger_exception_def)

lemma emits_call: "P ev \<Longrightarrow> emits P (call ev g)"
  by (simp add: emits_def call_def)

lemma emits_then_do:
  assumes m: "emits P m" and f: "\<And>x. emits P (f x)"
  shows "emits P (then_do m f)"
proof (rule emitsI)
  fix w
  obtain r w' where run: "m w = (r, w')"
    by (cases "m w") auto
  from m obtain new where new: "events w' = events w @ new" "list_all P new"
    using run by (elim emitsD [where w = w]) simp
  show "\<exists>new. events (snd (then_do m f w)) = events w @ new \<and> list_all P new"
  proof (cases r)
    case (Inl e)
    then show ?thesis
      using run new by (simp add: then_do_def)
  next
    case (Inr x)
    from f [of x] obtain more where more: "events (snd (f x w')) = events w' @ more" "list_all P more"
      by (elim emitsD [where w = w'])
    have "events (snd (then_do m f w)) = events w @ (new @ more)"
      using run Inr new more by (simp add: then_do_def)
    moreover have "list_all P (new @ more)"
      using new more by simp
    ultimately show ?thesis by blast
  qed
qed

lemma emits_try_except:
  assumes m: "emits P m" and h: "\<And>e. emits P (h e)"
  shows "emits P (try_except m h)"
proof (rule emitsI)
  fix w
  obtain r w' where run: "m w = (r, w')"
    by (cases "m w") auto
  from m obtain new where new: "events w' = events w @ new" "list_all P new"
    using run by (elim emitsD [where w = w]) simp
  show "\<exists>new. events (snd (try_except m h w)) = events w @ new \<and> list_all P new"
  proof (cases r)
    case (Inr x)
    then show ?thesis
      using run new by (simp add: try_except_def)
  next
    case (Inl e)
    from h [of e] obtain more where more: "events (snd (h e w')) = events w' @ more" "list_all P more"
      by (elim emitsD [where w = w'])
    have "events (snd (try_except m h w)) = events w @ (new @ more)"
      using run Inl new more by (simp add: try_except_def)
    moreover have "list_all P (new @ more)"
      using new more by simp
    ultimately show ?thesis by blast
  qed
qed

lemma emits_case_prod:
  assumes "\<And>a b. emits P (f a b)"
  shows "emits P (case x of (a, b) \<Rightarrow> f a b)"
  using assms by (cases x) simp

lemma emits_download_images:
  assumes "\<And>bucket path. P (Read bucket path)"
  shows "emits P (download_images env files images_data total_input_bytes)"
proof (induction files arbitrary: images_data total_input_bytes)
  case Nil
  have "download_images env [] images_data total_input_bytes = returns (images_data, total_input_bytes)"
    by (rule ext) simp
  then show ?case by (simp add: emits_returns)
next
  case (Cons png_uri rest)
  have "download_images env (png_uri # rest) images_data total_input_bytes =
     then_do (pure_call (parse_gcs_uri env png_uri)) (\<lambda>(bucket, path).
     then_do (call (Read bucket path) (\<lambda>h. storage_read env h bucket path)) (\<lambda>png_data.
     download_images env rest (images_data @ [png_data])
       (total_input_bytes + int (length png_data))))"
    by (rule ext) simp
  then show ?case
    by (simp add: emits_then_do emits_pure_call emits_case_prod emits_call assms Cons.IH)
qed

lemmas emits_steps = emits_then_do emits_try_except emits_case_prod emits_returns emits_raise
  emits_pure_call emits_logger emits_logger_exception emits_call emits_download_images

lemma emits_router:
  assumes "\<And>sb sp db dp. P (Copy sb sp db dp)"
      and "\<And>bucket path. P (Write bucket path (json_dumps env (error_record src msg))
                               ''application/json'')"
      and "\<And>l text lat. P (Log l text lat)"
  shows "emits P (copy_to_failed_bucket env src msg)"
  unfolding copy_to_failed_bucket_def
  by (intro emits_steps assms)

lemma emits_classified_prepare:
  assumes "\<And>bucket path. P (Read bucket path)"
      and "\<And>images vendor. P (ExtractInvoice images vendor)"
      and "\<And>l text lat. P (Log l text lat)"
  shows "emits P (classified_prepare env ce)"
  unfolding classified_prepare_def
  by (intro emits_steps assms)

lemma emits_converted_prepare:
  assumes "\<And>bucket path. P (Read bucket path)"
      and "\<And>l text lat. P (Log l text lat)"
  shows "emits P (converted_prepare env ce)"
  unfolding converted_prepare_def
  by (intro emits_steps assms)

lemma emits_score_extraction:
  assumes "\<And>trace scores comments. P (ScoreTrace trace scores comments)"
      and "\<And>l text lat. P (Log l text lat)"
  shows "emits P (score_extraction env trace_context result)"
  unfolding score_extraction_def
  by (cases "invoice result") (auto intro!: emits_steps assms)

section \<open>The failure branch of the extraction handler\<close>

text \<open>The router has no raise of its own: whatever a step does, it returns.\<close>

lemma router_returns: "fst (copy_to_failed_bucket env src msg w) = Inr ()"
proof (cases "parse_gcs_uri env src")
  case (Inl e)
  then show ?thesis by (simp add: router_parse_fault)
next
  case (Inr parsed)
  obtain sb sp where parse: "parse_gcs_uri env src = Inr (sb, sp)"
    using Inr by (cases parsed) auto
  show ?thesis
  proof (cases "storage_copy env (events w) sb sp (failed_bucket (config env))
                  (last (split CHR ''/'' sp))")
    case (Inl e)
    then show ?thesis by (simp add: router_copy_fault [OF parse])
  next
    case copied: (Inr uri)
    show ?thesis
    proof (cases "storage_write env
             (events w @ [Copy sb sp (failed_bucket (config env)) (last (split CHR ''/'' sp))])
             (failed_bucket (config env)) (last (split CHR ''/'' sp) @ ''.error.json'')
             (json_dumps env (error_record src msg)) ''application/json''")
      case (Inl e)
      then show ?thesis by (simp add: router_write_fault [OF parse copied])
    next
      case (Inr u)
      then show ?thesis by (simp add: router_done [OF parse copied])
    qed
  qed
qed


lemma classified_try_prepared:
  assumes "classified_prepare env ce w2 = (Inr (message, trace_context, result), w1)"
  shows "classified_try env ce w2 =
           (if \<not> success result then classified_failure env message result w1
            else classified_success env message trace_context result w1)"
  by (simp add: classified_try_def then_do_def assms)

lemma classified_failure_run:
  fixes env :: "'inv env"
  defines "wr \<equiv> \<lambda>message (result :: 'inv extraction_result) w1.
             snd (copy_to_failed_bucket env (classified_message.source_file message)
                    (or_else (error result) ''Unknown error'')
                    (w1\<lparr>events := events w1 @
                       [Log ERROR ''Extraction failed - moving to failed bucket'' None]\<rparr>))"
  shows "classified_failure env message result w1 =
           (case observer_flush env (events (wr message result w1)) of
              Inl e \<Rightarrow> (Inl e, (wr message result w1)
                                 \<lparr>events := events (wr message result w1) @ [Flush]\<rparr>)
            | Inr u \<Rightarrow> (Inr Returned, (wr message result w1)
                                 \<lparr>events := events (wr message result w1) @ [Flush]\<rparr>))"
proof -
  let ?wl = "w1\<lparr>events := events w1 @
                [Log ERROR ''Extraction failed - moving to failed bucket'' None]\<rparr>"
  let ?router = "copy_to_failed_bucket env (classified_message.source_file message)
                   (or_else (error result) ''Unknown error'')"
  have routed: "?router ?wl = (Inr (), wr message result w1)"
    using router_returns [of env "classified_message.source_file message"
            "or_else (error result) ''Unknown error''" ?wl]
    by (simp add: wr_def prod_eq_iff)
  have "classified_failure env message result w1 =
          then_do ?router (\<lambda>_. then_do (call Flush (observer_flush env)) (\<lambda>_. returns Returned)) ?wl"
    by (simp add: classified_failure_def then_do_logger)
  also have "\<dots> = then_do (call Flush (observer_flush env)) (\<lambda>_. returns Returned)
                     (wr message result w1)"
    by (simp add: then_do_def routed)
  finally show ?thesis
    by (simp add: then_do_def call_def returns_def split: sum.splits)
qed

lemma handle_classified_tail:
  assumes "classified_try env ce (entered env w) = (r, w1)"
  shows "\<exists>tail. events (snd (handle_invoice_classified env ce w)) = events w1 @ tail
           \<and> list_all (\<lambda>ev. \<not> side_effect ev) tail"
proof (cases r)
  case (Inr fl)
  show ?thesis
  proof (cases fl)
    case Returned
    then show ?thesis
      using handle_classified_returned(2) [of env ce w w1] assms Inr by simp
  next
    case Completed
    then show ?thesis
      using handle_classified_completed(2) [of env ce w w1] assms Inr by simp
  qed
next
  case (Inl e)
  show ?thesis
  proof (cases "observer_flush env (events w1)")
    case flushed: (Inr u)
    show ?thesis
    proof (cases "truthy e")
      case True
      then show ?thesis
        using handle_classified_raised(2) [of env ce w e w1 u] assms Inl flushed by simp
    next
      case False
      then show ?thesis
        using handle_classified_dropped(2) [of env ce w e w1 u] assms Inl flushed by simp
    qed
  next
    case (Inl e')
    then show ?thesis
      using handle_classified_flush_raised(2) [of env ce w e w1 e'] assms \<open>r = Inl e\<close> by simp
  qed
qed

lemma quiet_written_data: "\<not> side_effect ev \<Longrightarrow> written_data ev = None"
  by (cases ev) simp_all

lemma quiet_not_publish: "\<not> side_effect ev \<Longrightarrow> \<not> is_publish ev"
  by (cases ev) simp_all

lemma classified_failure_world:
  "events (snd (classified_failure env message result w1)) =
     events (snd (copy_to_failed_bucket env (classified_message.source_file message)
                    (or_else (error result) ''Unknown error'')
                    (w1\<lparr>events := events w1 @
                       [Log ERROR ''Extraction failed - moving to failed bucket'' None]\<rparr>)))
     @ [Flush]"
  by (simp add: classified_failure_run split: sum.splits)

text \<open>
  C1, amended. For a message that validates and whose downloads and extraction return a
  result with \<open>success = False\<close>, whatever the flush calls and the router's storage calls
  answer: the handler logs the failure and runs the failure router once, on the source
  identifier of the message and the error text of the result (\<^verbatim>\<open>"Unknown error"\<close> when
  there is none). Its history up to the flush that follows is the one that router run
  leaves, and everything after that flush is a flush or a log record, so the router does
  not run again. No publish is issued anywhere in the run. When the flush that follows
  the routing returns, the handler returns to its caller without an exception, and that
  flush is its last call.
\<close>

theorem extraction_failure_is_terminal:
  fixes env :: "'inv env"
  assumes prep: "classified_prepare env ce (entered env w) = (Inr (message, trace_context, result), w1)"
      and fail: "\<not> success result"
  shows "take (Suc (length (events
             (snd (copy_to_failed_bucket env (classified_message.source_file message)
                    (or_else (error result) ''Unknown error'')
                    (w1\<lparr>events := events w1 @
                       [Log ERROR ''Extraction failed - moving to failed bucket'' None]\<rparr>))))))
           (events (snd (handle_invoice_classified env ce w)))
         = events (snd (copy_to_failed_bucket env (classified_message.source_file message)
                    (or_else (error result) ''Unknown error'')
                    (w1\<lparr>events := events w1 @
                       [Log ERROR ''Extraction failed - moving to failed bucket'' None]\<rparr>)))
           @ [Flush]
       \<and> list_all (\<lambda>ev. \<not> side_effect ev)
           (drop (Suc (length (events
             (snd (copy_to_failed_bucket env (classified_message.source_file message)
                    (or_else (error result) ''Unknown error'')
                    (w1\<lparr>events := events w1 @
                       [Log ERROR ''Extraction failed - moving to failed bucket'' None]\<rparr>))))))
              (events (snd (handle_invoice_classified env ce w))))
       \<and> \<not> list_ex is_publish (new_events w (snd (handle_invoice_classified env ce w)))
       \<and> (\<not> isl (observer_flush env (events
             (snd (copy_to_failed_bucket env (classified_message.source_file message)
                    (or_else (error result) ''Unknown error'')
                    (w1\<lparr>events := events w1 @
                       [Log ERROR ''Extraction failed - moving to failed bucket'' None]\<rparr>)))))
          \<longrightarrow> fst (handle_invoice_classified env ce w) = Inr ()
              \<and> events (snd (handle_invoice_classified env ce w)) =
                  events (snd (copy_to_failed_bucket env (classified_message.source_file message)
                    (or_else (error result) ''Unknown error'')
                    (w1\<lparr>events := events w1 @
                       [Log ERROR ''Extraction failed - moving to failed bucket'' None]\<rparr>)))
                  @ [Flush])"
proof -
  let ?wl = "w1\<lparr>events := events w1 @
                [Log ERROR ''Extraction failed - moving to failed bucket'' None]\<rparr>"
  let ?router = "copy_to_failed_bucket env (classified_message.source_file message)
                   (or_else (error result) ''Unknown error'')"
  let ?wr = "snd (?router ?wl)"
  let ?run = "handle_invoice_classified env ce w"
  obtain r wt where t: "classified_try env ce (entered env w) = (r, wt)"
    by (cases "classified_try env ce (entered env w)") auto
  have wt: "events wt = events ?wr @ [Flush]"
    using t classified_failure_world [of env message result w1]
    by (simp add: classified_try_prepared [OF prep] fail)
  from handle_classified_tail [OF t]
  obtain tail where tail: "events (snd ?run) = events wt @ tail"
      "list_all (\<lambda>ev. \<not> side_effect ev) tail"
    by blast
  have once: "take (Suc (length (events ?wr))) (events (snd ?run)) = events ?wr @ [Flush]"
    by (simp add: tail(1) wt)
  have after: "list_all (\<lambda>ev. \<not> side_effect ev)
                 (drop (Suc (length (events ?wr))) (events (snd ?run)))"
    using tail(2) by (simp add: tail(1) wt)
  have "emits (\<lambda>ev. \<not> is_publish ev) (classified_prepare env ce)"
    by (rule emits_classified_prepare) simp_all
  from emits_run [OF this prep]
  obtain new1 where new1: "events w1 = events w @ new1" "list_all (\<lambda>ev. \<not> is_publish ev) new1"
    by (auto simp: events_entered)
  have "emits (\<lambda>ev. \<not> is_publish ev) ?router"
    by (rule emits_router) simp_all
  moreover have "?router ?wl = (fst (?router ?wl), ?wr)"
    by simp
  ultimately have "\<exists>new. events ?wr = events ?wl @ new \<and> list_all (\<lambda>ev. \<not> is_publish ev) new"
    by (rule emits_run)
  then obtain new2 where new2: "events ?wr = events ?wl @ new2" "list_all (\<lambda>ev. \<not> is_publish ev) new2"
    by auto
  have "events (snd ?run) = ((events ?wl @ new2) @ [Flush]) @ tail"
    by (simp only: tail(1) wt new2(1))
  then have "events (snd ?run) =
          events w @ (new1 @ [Log ERROR ''Extraction failed - moving to failed bucket'' None]
                        @ new2 @ [Flush] @ tail)"
    by (simp add: new1(1))
  then have new: "new_events w (snd ?run) =
          new1 @ [Log ERROR ''Extraction failed - moving to failed bucket'' None]
               @ new2 @ [Flush] @ tail"
    by (rule new_events_append)
  have "list_all (\<lambda>ev. \<not> is_publish ev) tail"
    using tail(2) by (auto simp: list_all_iff quiet_not_publish)
  then have quiet: "\<not> list_ex is_publish (new_events w (snd ?run))"
    using new1(2) new2(2) by (auto simp: new list_ex_iff list_all_iff)
  have normal: "fst ?run = Inr () \<and> events (snd ?run) = events ?wr @ [Flush]"
    if returned: "\<not> isl (observer_flush env (events ?wr))"
  proof -
    have flushed: "observer_flush env (events ?wr) = Inr ()"
      using returned by (cases "observer_flush env (events ?wr)") auto
    have "classified_try env ce (entered env w) =
            (Inr Returned, ?wr\<lparr>events := events ?wr @ [Flush]\<rparr>)"
      by (simp add: classified_try_prepared [OF prep] fail classified_failure_run flushed)
    from handle_classified_returned [OF this] show ?thesis
      by simp
  qed
  show ?thesis
    using once after quiet normal by blast
qed

text \<open>
  C1 as stated does not hold when the flush after routing faults: on the sample
  environment with a failed extraction and an observer whose flush raises, the router has
  run, nothing is published, and the handler raises instead of returning.
\<close>

theorem failed_extraction_raises_when_flush_faults:
  "\<not> success sample_failure
   \<and> fst (handle_invoice_classified (sample_env_flush_down sample_failure)
          classified_event world0)
       = Inl (Raised ''observer down'')
   \<and> events (snd (handle_invoice_classified (sample_env_flush_down sample_failure)
          classified_event world0))
       = [Log INFO ''Processing classified invoice'' None,
          Read ''processed'' ''a.png'',
          Log INFO ''Downloaded all images'' None,
          ExtractInvoice [''png-bytes''] (VendorType ''ubereats''),
          Log ERROR ''Extraction failed - moving to failed bucket'' None,
          Copy ''landing'' ''2024/a.tif'' ''failed'' ''a.tif'',
          Write ''failed'' ''a.tif.error.json''
            ''source_file=gs://landing/2024/a.tif;error=Unknown error'' ''application/json'',
          Log INFO ''Copied failed invoice to failed bucket'' None,
          Flush,
          Flush]"
  by (simp add: handler_defs sample_defs sample_env_flush_down_def)

text \<open>
  The sample run: the extraction fails without an error text and the handler returns.
\<close>

theorem extraction_failure_is_terminal_witness:
  "handle_invoice_classified (sample_env sample_failure) classified_event world0 =
     (Inr (),
      \<lparr>events =
         [Log INFO ''Processing classified invoice'' None,
          Read ''processed'' ''a.png'',
          Log INFO ''Downloaded all images'' None,
          ExtractInvoice [''png-bytes''] (VendorType ''ubereats''),
          Log ERROR ''Extraction failed - moving to failed bucket'' None,
          Copy ''landing'' ''2024/a.tif'' ''failed'' ''a.tif'',
          Write ''failed'' ''a.tif.error.json''
            ''source_file=gs://landing/2024/a.tif;error=Unknown error'' ''application/json'',
          Log INFO ''Copied failed invoice to failed bucket'' None,
          Flush],
       store = (\<lambda>_. Map.empty)(0 := [''latency_ms'' \<mapsto> 2500]),
       allocated = 1, clock_reads = 2\<rparr>)"
proof -
  let ?env = "sample_env sample_failure"
  have prep: "classified_prepare ?env classified_event (entered ?env world0) =
                (Inr (sample_classified, sample_trace, sample_failure),
                 snd (classified_prepare ?env classified_event (entered ?env world0)))"
    by (simp add: prod_eq_iff handler_defs sample_defs)
  have fail: "\<not> success sample_failure"
    by (simp add: sample_failure_def)
  from extraction_failure_is_terminal [OF prep fail]
  show ?thesis
    by (simp add: handler_defs sample_defs)
qed

section \<open>The error text handed to the router\<close>

text \<open>
  C8. For a failed extraction whose error field is absent or the empty string, the
  handler runs the router with the error message \<^verbatim>\<open>"Unknown error"\<close>: up to and including
  the flush that follows, its history is the one that router call leaves. Every storage
  write of the whole run then carries the dump of the record whose \<^verbatim>\<open>error\<close> field is
  that text, so no written record has an empty or null error.
\<close>

theorem unknown_error_substituted:
  fixes env :: "'inv env"
  assumes prep: "classified_prepare env ce (entered env w) = (Inr (message, trace_context, result), w1)"
      and fail: "\<not> success result"
      and blank: "error result = None \<or> error result = Some []"
  shows "take (Suc (length (events
             (snd (copy_to_failed_bucket env (classified_message.source_file message)
                    ''Unknown error''
                    (w1\<lparr>events := events w1 @
                       [Log ERROR ''Extraction failed - moving to failed bucket'' None]\<rparr>))))))
           (events (snd (handle_invoice_classified env ce w)))
         = events (snd (copy_to_failed_bucket env (classified_message.source_file message)
                    ''Unknown error''
                    (w1\<lparr>events := events w1 @
                       [Log ERROR ''Extraction failed - moving to failed bucket'' None]\<rparr>)))
           @ [Flush]
       \<and> (\<forall>body \<in> set (List.map_filter written_data
                          (new_events w (snd (handle_invoice_classified env ce w)))).
            body = json_dumps env (JObj [(''source_file'', JStr (classified_message.source_file message)),
                                         (''error'', JStr ''Unknown error'')]))"
proof -
  let ?wl = "w1\<lparr>events := events w1 @
                [Log ERROR ''Extraction failed - moving to failed bucket'' None]\<rparr>"
  let ?router = "copy_to_failed_bucket env (classified_message.source_file message)
                   ''Unknown error''"
  let ?wr = "snd (?router ?wl)"
  let ?body = "json_dumps env (error_record (classified_message.source_file message)
                                 ''Unknown error'')"
  let ?P = "\<lambda>ev. \<forall>d. written_data ev = Some d \<longrightarrow> d = ?body"
  have substitute: "or_else (error result) ''Unknown error'' = ''Unknown error''"
    using blank by (auto simp: or_else_def)
  obtain r wt where t: "classified_try env ce (entered env w) = (r, wt)"
    by (cases "classified_try env ce (entered env w)") auto
  have wt: "events wt = events ?wr @ [Flush]"
    using t classified_failure_world [of env message result w1]
    by (simp add: classified_try_prepared [OF prep] fail substitute)
  from handle_classified_tail [OF t]
  obtain tail where tail: "events (snd (handle_invoice_classified env ce w)) = events wt @ tail"
      "list_all (\<lambda>ev. \<not> side_effect ev) tail"
    by blast
  have first: "take (Suc (length (events ?wr))) (events (snd (handle_invoice_classified env ce w)))
                 = events ?wr @ [Flush]"
    by (simp add: tail(1) wt)
  have "emits ?P (classified_prepare env ce)"
    by (rule emits_classified_prepare) simp_all
  from emits_run [OF this prep]
  obtain new1 where new1: "events w1 = events w @ new1" "list_all ?P new1"
    by (auto simp: events_entered)
  have "emits ?P ?router"
    by (rule emits_router) simp_all
  moreover have "?router ?wl = (fst (?router ?wl), ?wr)"
    by simp
  ultimately have "\<exists>new. events ?wr = events ?wl @ new \<and> list_all ?P new"
    by (rule emits_run)
  then obtain new2 where new2: "events ?wr = events ?wl @ new2" "list_all ?P new2"
    by auto
  have "events (snd (handle_invoice_classified env ce w)) = ((events ?wl @ new2) @ [Flush]) @ tail"
    by (simp only: tail(1) wt new2(1))
  then have "events (snd (handle_invoice_classified env ce w)) =
          events w @ (new1 @ [Log ERROR ''Extraction failed - moving to failed bucket'' None]
                        @ new2 @ [Flush] @ tail)"
    by (simp add: new1(1))
  then have new: "new_events w (snd (handle_invoice_classified env ce w)) =
          new1 @ [Log ERROR ''Extraction failed - moving to failed bucket'' None]
               @ new2 @ [Flush] @ tail"
    by (rule new_events_append)
  have "list_all ?P tail"
    using tail(2) by (auto simp: list_all_iff quiet_written_data)
  then have "list_all ?P (new_events w (snd (handle_invoice_classified env ce w)))"
    using new1(2) new2(2) by (simp add: new)
  then have second: "\<forall>body \<in> set (List.map_filter written_data
                          (new_events w (snd (handle_invoice_classified env ce w)))). body = ?body"
    by (auto simp: list_all_iff map_filter_def)
  show ?thesis
    using first second by (simp add: error_record_def)
qed


text \<open>The sample failure with no error text, and with an empty one.\<close>

theorem unknown_error_substituted_witness:
  "List.map_filter written_data (new_events world0
      (snd (handle_invoice_classified (sample_env sample_failure) classified_event world0)))
     = [''source_file=gs://landing/2024/a.tif;error=Unknown error'']
   \<and> List.map_filter written_data (new_events world0
      (snd (handle_invoice_classified (sample_env (sample_failure\<lparr>error := Some []\<rparr>))
              classified_event world0)))
     = [''source_file=gs://landing/2024/a.tif;error=Unknown error'']"
proof -
  let ?none = "sample_env sample_failure"
  let ?empty = "sample_env (sample_failure\<lparr>error := Some []\<rparr>)"
  have a: "classified_prepare ?none classified_event (entered ?none world0) =
             (Inr (sample_classified, sample_trace, sample_failure),
              snd (classified_prepare ?none classified_event (entered ?none world0)))"
    by (simp add: prod_eq_iff handler_defs sample_defs)
  have b: "classified_prepare ?empty classified_event (entered ?empty world0) =
             (Inr (sample_classified, sample_trace, sample_failure\<lparr>error := Some []\<rparr>),
              snd (classified_prepare ?empty classified_event (entered ?empty world0)))"
    by (simp add: prod_eq_iff handler_defs sample_defs)
  from unknown_error_substituted [OF a] unknown_error_substituted [OF b]
  show ?thesis
    by (simp add: handler_defs sample_defs map_filter_def)
qed

section \<open>The success branch of the extraction handler\<close>

lemma filter_quiet:
  assumes "list_all (\<lambda>ev. \<not> is_publish ev) evs"
  shows "filter is_publish evs = []"
  using assms by (induction evs) auto

lemma classified_success_outcome:
  assumes scored: "score_extraction env trace_context result
                     (w1\<lparr>events := events w1 @ [Log INFO ''Extraction successful'' None]\<rparr>)
                   = (Inr (), ws)"
      and valid: "extracted_message_check env (extracted_of env message trace_context result) = None"
  shows "classified_success env message trace_context result w1 =
          (case messaging_publish env (events ws) (extracted_topic (config env))
                  (Extracted (extracted_of env message trace_context result)) of
             Inl e \<Rightarrow> (Inl e, ws\<lparr>events := events ws @
                 [Publish (extracted_topic (config env))
                    (Extracted (extracted_of env message trace_context result))]\<rparr>)
           | Inr u \<Rightarrow>
              (case observer_flush env (events ws @
                      [Publish (extracted_topic (config env))
                         (Extracted (extracted_of env message trace_context result))]) of
                 Inl e \<Rightarrow> (Inl e, ws\<lparr>events := events ws @
                     [Publish (extracted_topic (config env))
                        (Extracted (extracted_of env message trace_context result)), Flush]\<rparr>)
               | Inr u \<Rightarrow> (Inr Completed, ws\<lparr>events := events ws @
                     [Publish (extracted_topic (config env))
                        (Extracted (extracted_of env message trace_context result)), Flush]\<rparr>)))"
  by (simp add: classified_success_def then_do_def logger_def scored construct_def valid
        pure_call_def call_def returns_def split: sum.splits)

lemma classified_success_run:
  assumes scored: "score_extraction env trace_context result
                     (w1\<lparr>events := events w1 @ [Log INFO ''Extraction successful'' None]\<rparr>)
                   = (Inr (), ws)"
      and valid: "extracted_message_check env (extracted_of env message trace_context result) = None"
  shows "\<exists>tail. events (snd (classified_success env message trace_context result w1)) =
           events ws @ Publish (extracted_topic (config env))
                         (Extracted (extracted_of env message trace_context result)) # tail
         \<and> list_all (\<lambda>ev. \<not> side_effect ev) tail"
proof -
  let ?pub = "Publish (extracted_topic (config env))
                (Extracted (extracted_of env message trace_context result))"
  let ?wp = "ws\<lparr>events := events ws @ [?pub]\<rparr>"
  have run: "classified_success env message trace_context result w1 =
          (case messaging_publish env (events ws) (extracted_topic (config env))
                  (Extracted (extracted_of env message trace_context result)) of
             Inl e \<Rightarrow> (Inl e, ?wp)
           | Inr u \<Rightarrow> (case observer_flush env (events ?wp) of
                          Inl e \<Rightarrow> (Inl e, ?wp\<lparr>events := events ?wp @ [Flush]\<rparr>)
                        | Inr u \<Rightarrow> (Inr Completed, ?wp\<lparr>events := events ?wp @ [Flush]\<rparr>)))"
    by (simp add: classified_success_def then_do_def logger_def scored construct_def valid
          pure_call_def call_def returns_def split: sum.splits)
  show ?thesis
  proof (cases "messaging_publish env (events ws) (extracted_topic (config env))
                  (Extracted (extracted_of env message trace_context result))")
    case (Inl e)
    then have "events (snd (classified_success env message trace_context result w1)) =
                 events ws @ ?pub # []"
      by (simp add: run)
    then show ?thesis by (intro exI [of _ "[]"]) simp
  next
    case (Inr u)
    then have "events (snd (classified_success env message trace_context result w1)) =
                 events ws @ ?pub # [Flush]"
      by (simp add: run split: sum.splits)
    then show ?thesis by (intro exI [of _ "[Flush]"]) simp
  qed
qed

text \<open>
  C3, amended. For a message that validates and whose downloads and extraction return a
  result with \<open>success = True\<close>, once the scoring step and the message constructor have
  returned, the whole run holds exactly one publish, whatever the publish and the flushes
  answer. It goes to the extracted topic and carries the message below: the trace
  identifiers of the trace context, source and vendor of the inbound message, latency,
  confidence and prompt of the result, the dump of the invoice or the empty object, and as
  model \<^verbatim>\<open>"gemini-2.5-flash"\<close> when the provider of the result is \<^verbatim>\<open>"gemini"\<close> and
  \<^verbatim>\<open>"openrouter"\<close> for every other provider.
\<close>

theorem extraction_success_publishes_once:
  fixes env :: "'inv env"
  assumes prep: "classified_prepare env ce (entered env w) = (Inr (message, trace_context, result), w1)"
      and ok: "success result"
      and scored: "score_extraction env trace_context result
                     (w1\<lparr>events := events w1 @ [Log INFO ''Extraction successful'' None]\<rparr>)
                   = (Inr (), ws)"
      and valid: "extracted_message_check env (extracted_of env message trace_context result) = None"
  shows "filter is_publish (new_events w (snd (handle_invoice_classified env ce w))) =
           [Publish (extracted_topic (config env))
              (Extracted
                \<lparr>extracted_message.trace_id = trace_context.trace_id trace_context,
                 extracted_message.session_id = trace_context.session_id trace_context,
                 extracted_message.parent_span_id = trace_context.parent_span_id trace_context,
                 extracted_message.source_file = classified_message.source_file message,
                 extracted_message.vendor_type = classified_message.vendor_type message,
                 extraction_model =
                   (if provider result = ''gemini'' then ''gemini-2.5-flash'' else ''openrouter''),
                 extraction_latency_ms = latency_ms result,
                 confidence_score = extraction_result.confidence result,
                 extracted_data =
                   (case invoice result of None \<Rightarrow> JObj []
                    | Some doc \<Rightarrow> invoice_model_dump env doc),
                 extracted_message.prompt_name = extraction_result.prompt_name result,
                 extracted_message.prompt_version = extraction_result.prompt_version result\<rparr>)]"
proof -
  let ?wl = "w1\<lparr>events := events w1 @ [Log INFO ''Extraction successful'' None]\<rparr>"
  let ?pub = "Publish (extracted_topic (config env))
                (Extracted (extracted_of env message trace_context result))"
  obtain r wt where t: "classified_try env ce (entered env w) = (r, wt)"
    by (cases "classified_try env ce (entered env w)") auto
  have "wt = snd (classified_success env message trace_context result w1)"
    using t by (simp add: classified_try_prepared [OF prep] ok)
  with classified_success_run [OF scored valid]
  obtain tail1 where tail1: "events wt = events ws @ ?pub # tail1"
      "list_all (\<lambda>ev. \<not> side_effect ev) tail1"
    by blast
  from handle_classified_tail [OF t]
  obtain tail2 where tail2: "events (snd (handle_invoice_classified env ce w)) = events wt @ tail2"
      "list_all (\<lambda>ev. \<not> side_effect ev) tail2"
    by blast
  have "emits (\<lambda>ev. \<not> is_publish ev) (classified_prepare env ce)"
    by (rule emits_classified_prepare) simp_all
  from emits_run [OF this prep]
  obtain new1 where new1: "events w1 = events w @ new1" "list_all (\<lambda>ev. \<not> is_publish ev) new1"
    by (auto simp: events_entered)
  have "emits (\<lambda>ev. \<not> is_publish ev) (score_extraction env trace_context result)"
    by (rule emits_score_extraction) simp_all
  from emits_run [OF this scored]
  obtain new2 where new2: "events ws = events ?wl @ new2" "list_all (\<lambda>ev. \<not> is_publish ev) new2"
    by auto
  have "events (snd (handle_invoice_classified env ce w)) =
          ((events ?wl @ new2) @ ?pub # tail1) @ tail2"
    by (simp only: tail2(1) tail1(1) new2(1))
  then have "events (snd (handle_invoice_classified env ce w)) =
          events w @ (new1 @ [Log INFO ''Extraction successful'' None] @ new2 @ [?pub]
                        @ tail1 @ tail2)"
    by (simp add: new1(1))
  then have new: "new_events w (snd (handle_invoice_classified env ce w)) =
          new1 @ [Log INFO ''Extraction successful'' None] @ new2 @ [?pub] @ tail1 @ tail2"
    by (rule new_events_append)
  have "list_all (\<lambda>ev. \<not> is_publish ev) tail1" "list_all (\<lambda>ev. \<not> is_publish ev) tail2"
    using tail1(2) tail2(2) by (auto simp: list_all_iff quiet_not_publish)
  then have "filter is_publish (new_events w (snd (handle_invoice_classified env ce w))) = [?pub]"
    using new1(2) new2(2) by (simp add: new filter_quiet)
  then show ?thesis
    by (simp add: extracted_of_def)
qed

text \<open>
  C3 as stated does not hold for the provider: on the sample environment the result names
  the provider \<^verbatim>\<open>"gemini"\<close> and the published message names the model
  \<^verbatim>\<open>"gemini-2.5-flash"\<close>; no field of it equals the provider of the result.
\<close>

theorem published_model_is_not_provider:
  "filter is_publish (events (snd (handle_invoice_classified (sample_env sample_success)
      classified_event world0)))
     = [Publish ''invoice-extracted''
          (Extracted
            \<lparr>extracted_message.trace_id = ''t1'', extracted_message.session_id = ''s1'',
             extracted_message.parent_span_id = ''p1'',
             extracted_message.source_file = ''gs://landing/2024/a.tif'',
             extracted_message.vendor_type = VendorType ''ubereats'',
             extraction_model = ''gemini-2.5-flash'',
             extraction_latency_ms = 1200, confidence_score = 0.75,
             extracted_data = JObj [(''invoice_id'', JStr ''INV-1'')],
             extracted_message.prompt_name = ''invoice'',
             extracted_message.prompt_version = ''3''\<rparr>)]
   \<and> provider sample_success = ''gemini''
   \<and> ''gemini-2.5-flash'' \<noteq> provider sample_success"
  by (simp add: handler_defs sample_defs)

text \<open>
  A successful result without an invoice, answered by another provider: the empty object
  is published, under the model name \<^verbatim>\<open>"openrouter"\<close>.
\<close>

theorem extraction_success_publishes_once_witness:
  "filter is_publish (new_events world0 (snd (handle_invoice_classified
      (sample_env (sample_success\<lparr>invoice := None, provider := ''openrouter''\<rparr>))
      classified_event world0)))
     = [Publish ''invoice-extracted''
          (Extracted
            \<lparr>extracted_message.trace_id = ''t1'', extracted_message.session_id = ''s1'',
             extracted_message.parent_span_id = ''p1'',
             extracted_message.source_file = ''gs://landing/2024/a.tif'',
             extracted_message.vendor_type = VendorType ''ubereats'',
             extraction_model = ''openrouter'',
             extraction_latency_ms = 1200, confidence_score = 0.75,
             extracted_data = JObj [],
             extracted_message.prompt_name = ''invoice'',
             extracted_message.prompt_version = ''3''\<rparr>)]"
proof -
  let ?result = "sample_success\<lparr>invoice := None, provider := ''openrouter''\<rparr>"
  let ?env = "sample_env ?result"
  let ?w1 = "snd (classified_prepare ?env classified_event (entered ?env world0))"
  let ?wl = "?w1\<lparr>events := events ?w1 @ [Log INFO ''Extraction successful'' None]\<rparr>"
  have prep: "classified_prepare ?env classified_event (entered ?env world0) =
                (Inr (sample_classified, sample_trace, ?result), ?w1)"
    by (simp add: prod_eq_iff handler_defs sample_defs)
  have ok: "success ?result"
    by (simp add: sample_success_def)
  have scored: "score_extraction ?env sample_trace ?result ?wl = (Inr (), ?wl)"
    by (simp add: score_extraction_def returns_def sample_success_def)
  have valid: "extracted_message_check ?env
                 (extracted_of ?env sample_classified sample_trace ?result) = None"
    by (simp add: sample_env_def)
  from extraction_success_publishes_once [OF prep ok scored valid]
  show ?thesis
    by (simp add: handler_defs sample_defs)
qed


section \<open>Faults of the side channels\<close>

text \<open>
  C4 as stated does not hold for the flush calls. On the sample environment with a
  successful extraction and an observer whose flush raises, the message is published, the
  flush of line 208 faults, the flush of line 212 faults as well, and the extraction
  handler raises to its caller.
\<close>

theorem flush_fault_reaches_caller:
  "success sample_success
   \<and> fst (handle_invoice_classified (sample_env_flush_down sample_success)
          classified_event world0)
       = Inl (Raised ''observer down'')
   \<and> drop 7 (events (snd (handle_invoice_classified (sample_env_flush_down sample_success)
          classified_event world0)))
       = [Publish ''invoice-extracted''
            (Extracted
              \<lparr>extracted_message.trace_id = ''t1'', extracted_message.session_id = ''s1'',
               extracted_message.parent_span_id = ''p1'',
               extracted_message.source_file = ''gs://landing/2024/a.tif'',
               extracted_message.vendor_type = VendorType ''ubereats'',
               extraction_model = ''gemini-2.5-flash'',
               extraction_latency_ms = 1200, confidence_score = 0.75,
               extracted_data = JObj [(''invoice_id'', JStr ''INV-1'')],
               extracted_message.prompt_name = ''invoice'',
               extracted_message.prompt_version = ''3''\<rparr>),
          Flush,
          Flush]"
  by (simp add: handler_defs sample_defs sample_env_flush_down_def)

text \<open>
  C4, amended. The failure router returns normally whatever its steps do, and when the URI
  parser, the copy or the write faults, the last thing it did is to log the error. The
  flush calls have no guard of their own. On the failure branch the handler returns
  normally when the flush after routing (line 149) returns. A fault of that flush, or of
  the flush after the publish (line 208), is caught by the \<^verbatim>\<open>except\<close> clause of the
  handler, which calls flush once more: when this second flush returns, the fault, a true
  exception object, is logged and raised again to the caller; when the second flush
  faults too, its fault reaches the caller and nothing is logged.
\<close>

theorem routing_faults_swallowed_flush_faults_raised:
  fixes env :: "'inv env"
  assumes prep: "classified_prepare env ce (entered env w) = (Inr (message, trace_context, result), w1)"
  shows "fst (copy_to_failed_bucket env src msg w') = Inr ()
       \<and> (isl (parse_gcs_uri env src)
            \<or> (parse_gcs_uri env src = Inr (sb, sp)
                \<and> (isl (storage_copy env (events w') sb sp (failed_bucket (config env))
                          (last (split CHR ''/'' sp)))
                    \<or> isl (storage_write env
                          (events w' @ [Copy sb sp (failed_bucket (config env))
                                          (last (split CHR ''/'' sp))])
                          (failed_bucket (config env)) (last (split CHR ''/'' sp) @ ''.error.json'')
                          (json_dumps env (error_record src msg)) ''application/json'')))
          \<longrightarrow> last (events (snd (copy_to_failed_bucket env src msg w')))
                = Log ERROR ''Failed to copy to failed bucket'' None)
       \<and> (\<not> success result
          \<and> \<not> isl (observer_flush env (events (snd (copy_to_failed_bucket env (classified_message.source_file message)
                    (or_else (error result) ''Unknown error'')
                    (w1\<lparr>events := events w1 @
                       [Log ERROR ''Extraction failed - moving to failed bucket'' None]\<rparr>)))))
          \<longrightarrow> fst (handle_invoice_classified env ce w) = Inr ())
       \<and> (\<not> success result
          \<and> observer_flush env (events (snd (copy_to_failed_bucket env (classified_message.source_file message)
                    (or_else (error result) ''Unknown error'')
                    (w1\<lparr>events := events w1 @
                       [Log ERROR ''Extraction failed - moving to failed bucket'' None]\<rparr>)))) = Inl e
          \<and> truthy e
          \<and> \<not> isl (observer_flush env (events (snd (copy_to_failed_bucket env (classified_message.source_file message)
                    (or_else (error result) ''Unknown error'')
                    (w1\<lparr>events := events w1 @
                       [Log ERROR ''Extraction failed - moving to failed bucket'' None]\<rparr>))) @ [Flush]))
          \<longrightarrow> fst (handle_invoice_classified env ce w) = Inl e
              \<and> events (snd (handle_invoice_classified env ce w)) =
                  events (snd (copy_to_failed_bucket env (classified_message.source_file message)
                    (or_else (error result) ''Unknown error'')
                    (w1\<lparr>events := events w1 @
                       [Log ERROR ''Extraction failed - moving to failed bucket'' None]\<rparr>))) @ [Flush, Flush,
                    LogException ''Extraction processing failed'' e
                      (Some (elapsed env w (snd (copy_to_failed_bucket env (classified_message.source_file message)
                    (or_else (error result) ''Unknown error'')
                    (w1\<lparr>events := events w1 @
                       [Log ERROR ''Extraction failed - moving to failed bucket'' None]\<rparr>)))))])
       \<and> (\<not> success result
          \<and> observer_flush env (events (snd (copy_to_failed_bucket env (classified_message.source_file message)
                    (or_else (error result) ''Unknown error'')
                    (w1\<lparr>events := events w1 @
                       [Log ERROR ''Extraction failed - moving to failed bucket'' None]\<rparr>)))) = Inl e
          \<and> observer_flush env (events (snd (copy_to_failed_bucket env (classified_message.source_file message)
                    (or_else (error result) ''Unknown error'')
                    (w1\<lparr>events := events w1 @
                       [Log ERROR ''Extraction failed - moving to failed bucket'' None]\<rparr>))) @ [Flush]) = Inl e2
          \<longrightarrow> fst (handle_invoice_classified env ce w) = Inl e2
              \<and> events (snd (handle_invoice_classified env ce w)) = events (snd (copy_to_failed_bucket env (classified_message.source_file message)
                    (or_else (error result) ''Unknown error'')
                    (w1\<lparr>events := events w1 @
                       [Log ERROR ''Extraction failed - moving to failed bucket'' None]\<rparr>))) @ [Flush, Flush])
       \<and> (success result
          \<and> score_extraction env trace_context result
                (w1\<lparr>events := events w1 @ [Log INFO ''Extraction successful'' None]\<rparr>)
              = (Inr (), ws)
          \<and> extracted_message_check env (extracted_of env message trace_context result) = None
          \<and> \<not> isl (messaging_publish env (events ws) (extracted_topic (config env))
                      (Extracted (extracted_of env message trace_context result)))
          \<and> observer_flush env (events ws @ [Publish (extracted_topic (config env))
                     (Extracted (extracted_of env message trace_context result))]) = Inl e
          \<and> truthy e
          \<and> \<not> isl (observer_flush env (events ws @ [Publish (extracted_topic (config env))
                     (Extracted (extracted_of env message trace_context result)), Flush]))
          \<longrightarrow> fst (handle_invoice_classified env ce w) = Inl e
              \<and> events (snd (handle_invoice_classified env ce w)) =
                  events ws @ [Publish (extracted_topic (config env))
                     (Extracted (extracted_of env message trace_context result)), Flush, Flush,
                    LogException ''Extraction processing failed'' e
                      (Some (elapsed env w ws))])
       \<and> (success result
          \<and> score_extraction env trace_context result
                (w1\<lparr>events := events w1 @ [Log INFO ''Extraction successful'' None]\<rparr>)
              = (Inr (), ws)
          \<and> extracted_message_check env (extracted_of env message trace_context result) = None
          \<and> \<not> isl (messaging_publish env (events ws) (extracted_topic (config env))
                      (Extracted (extracted_of env message trace_context result)))
          \<and> observer_flush env (events ws @ [Publish (extracted_topic (config env))
                     (Extracted (extracted_of env message trace_context result))]) = Inl e
          \<and> observer_flush env (events ws @ [Publish (extracted_topic (config env))
                     (Extracted (extracted_of env message trace_context result)), Flush]) = Inl e2
          \<longrightarrow> fst (handle_invoice_classified env ce w) = Inl e2
              \<and> events (snd (handle_invoice_classified env ce w)) =
                  events ws @ [Publish (extracted_topic (config env))
                     (Extracted (extracted_of env message trace_context result)), Flush, Flush])"
proof -
  let ?wl = "w1\<lparr>events := events w1 @
                [Log ERROR ''Extraction failed - moving to failed bucket'' None]\<rparr>"
  let ?wr = "snd (copy_to_failed_bucket env (classified_message.source_file message)
                    (or_else (error result) ''Unknown error'') ?wl)"
  let ?pub = "Publish (extracted_topic (config env))
                (Extracted (extracted_of env message trace_context result))"
  let ?run = "handle_invoice_classified env ce w"
  let ?fn = "last (split CHR ''/'' sp)"
  let ?fb = "failed_bucket (config env)"
  let ?copied = "storage_copy env (events w') sb sp ?fb ?fn"
  let ?stored = "storage_write env (events w' @ [Copy sb sp ?fb ?fn]) ?fb (?fn @ ''.error.json'')
                   (json_dumps env (error_record src msg)) ''application/json''"
  let ?failed = "Log ERROR ''Failed to copy to failed bucket'' None"
  have swallowed: "fst (copy_to_failed_bucket env src msg w') = Inr ()"
    by (rule router_returns)
  have logged: "last (events (snd (copy_to_failed_bucket env src msg w'))) = ?failed"
    if fault: "isl (parse_gcs_uri env src)
               \<or> (parse_gcs_uri env src = Inr (sb, sp) \<and> (isl ?copied \<or> isl ?stored))"
  proof (cases "parse_gcs_uri env src")
    case (Inl x)
    then show ?thesis by (simp add: router_parse_fault)
  next
    case (Inr parsed)
    then have parse: "parse_gcs_uri env src = Inr (sb, sp)" and "isl ?copied \<or> isl ?stored"
      using fault by auto
    show ?thesis
    proof (cases ?copied)
      case (Inl x)
      then show ?thesis by (simp add: router_copy_fault [OF parse])
    next
      case copied: (Inr uri)
      then obtain x where "?stored = Inl x"
        using \<open>isl ?copied \<or> isl ?stored\<close> by (cases ?stored) auto
      then show ?thesis by (simp add: router_write_fault [OF parse copied])
    qed
  qed
  have normal: "fst ?run = Inr ()"
    if fail: "\<not> success result" and returned: "\<not> isl (observer_flush env (events ?wr))"
  proof -
    have flushed: "observer_flush env (events ?wr) = Inr ()"
      using returned by (cases "observer_flush env (events ?wr)") auto
    have "classified_try env ce (entered env w) =
            (Inr Returned, ?wr\<lparr>events := events ?wr @ [Flush]\<rparr>)"
      by (simp add: classified_try_prepared [OF prep] fail classified_failure_run flushed)
    then show ?thesis
      by (rule handle_classified_returned(1))
  qed
  have fault_149: "classified_try env ce (entered env w) =
                     (Inl e, ?wr\<lparr>events := events ?wr @ [Flush]\<rparr>)"
    if "\<not> success result" and "observer_flush env (events ?wr) = Inl e"
    using that by (simp add: classified_try_prepared [OF prep] classified_failure_run)
  have fault_208: "classified_try env ce (entered env w) =
                     (Inl e, ws\<lparr>events := events ws @ [?pub, Flush]\<rparr>)"
    if "success result"
      and "score_extraction env trace_context result
             (w1\<lparr>events := events w1 @ [Log INFO ''Extraction successful'' None]\<rparr>)
           = (Inr (), ws)"
      and "extracted_message_check env (extracted_of env message trace_context result) = None"
      and sent: "\<not> isl (messaging_publish env (events ws) (extracted_topic (config env))
                         (Extracted (extracted_of env message trace_context result)))"
      and "observer_flush env (events ws @ [?pub]) = Inl e"
  proof -
    have "messaging_publish env (events ws) (extracted_topic (config env))
            (Extracted (extracted_of env message trace_context result)) = Inr ()"
      using sent by (cases "messaging_publish env (events ws) (extracted_topic (config env))
            (Extracted (extracted_of env message trace_context result))") auto
    then show ?thesis
      using that by (simp add: classified_try_prepared [OF prep]
                       classified_success_outcome [OF that(2) that(3)])
  qed
  have reraised: "fst ?run = Inl e
      \<and> events (snd ?run) = events wt @ [Flush, LogException ''Extraction processing failed'' e
                                                   (Some (elapsed env w wt))]"
    if "classified_try env ce (entered env w) = (Inl e, wt)" and "truthy e"
      and again: "\<not> isl (observer_flush env (events wt))" for wt
  proof -
    have "observer_flush env (events wt) = Inr ()"
      using again by (cases "observer_flush env (events wt)") auto
    from handle_classified_raised [OF that(1) this that(2)] show ?thesis
      by simp
  qed
  have replaced: "fst ?run = Inl e2 \<and> events (snd ?run) = events wt @ [Flush]"
    if "classified_try env ce (entered env w) = (Inl e, wt)"
      and "observer_flush env (events wt) = Inl e2" for wt
    using handle_classified_flush_raised [OF that] by simp
  have c4: "fst ?run = Inl e
      \<and> events (snd ?run) = events ?wr @ [Flush, Flush,
            LogException ''Extraction processing failed'' e (Some (elapsed env w ?wr))]"
    if "\<not> success result" "observer_flush env (events ?wr) = Inl e" "truthy e"
       "\<not> isl (observer_flush env (events ?wr @ [Flush]))"
    using reraised [OF fault_149 [OF that(1) that(2)] that(3)] that(4)
    by (simp add: elapsed_def)
  have c5: "fst ?run = Inl e2 \<and> events (snd ?run) = events ?wr @ [Flush, Flush]"
    if "\<not> success result" "observer_flush env (events ?wr) = Inl e"
       "observer_flush env (events ?wr @ [Flush]) = Inl e2"
    using replaced [OF fault_149 [OF that(1) that(2)]] that(3) by simp
  have c6: "fst ?run = Inl e
      \<and> events (snd ?run) = events ws @ [?pub, Flush, Flush,
            LogException ''Extraction processing failed'' e (Some (elapsed env w ws))]"
    if "success result"
       "score_extraction env trace_context result
             (w1\<lparr>events := events w1 @ [Log INFO ''Extraction successful'' None]\<rparr>)
           = (Inr (), ws)"
       "extracted_message_check env (extracted_of env message trace_context result) = None"
       "\<not> isl (messaging_publish env (events ws) (extracted_topic (config env))
                         (Extracted (extracted_of env message trace_context result)))"
       "observer_flush env (events ws @ [?pub]) = Inl e" "truthy e"
       "\<not> isl (observer_flush env (events ws @ [?pub, Flush]))"
    using reraised [OF fault_208 [OF that(1) that(2) that(3) that(4) that(5)] that(6)] that(7)
    by (simp add: elapsed_def)
  have c7: "fst ?run = Inl e2 \<and> events (snd ?run) = events ws @ [?pub, Flush, Flush]"
    if "success result"
       "score_extraction env trace_context result
             (w1\<lparr>events := events w1 @ [Log INFO ''Extraction successful'' None]\<rparr>)
           = (Inr (), ws)"
       "extracted_message_check env (extracted_of env message trace_context result) = None"
       "\<not> isl (messaging_publish env (events ws) (extracted_topic (config env))
                         (Extracted (extracted_of env message trace_context result)))"
       "observer_flush env (events ws @ [?pub]) = Inl e"
       "observer_flush env (events ws @ [?pub, Flush]) = Inl e2"
    using replaced [OF fault_208 [OF that(1) that(2) that(3) that(4) that(5)]] that(6) by simp
  show ?thesis
    using swallowed logged normal c4 c5 c6 c7 by blast
qed

text \<open>
  Three sample runs. A copy that faults inside the router, with a working observer: the
  fault is logged and the handler returns. A failed extraction with an observer whose
  first flush faults and whose later ones return: the fault is logged and raised. A
  successful extraction with an observer whose flush always faults: the caller gets the
  fault of the second flush.
\<close>

theorem routing_faults_swallowed_flush_faults_raised_witness:
  "handle_invoice_classified
     ((sample_env sample_failure)\<lparr>storage_copy := \<lambda>h sb sp db dp. Inl (Raised ''NotFound'')\<rparr>)
     classified_event world0
   = (Inr (),
      \<lparr>events =
         [Log INFO ''Processing classified invoice'' None,
          Read ''processed'' ''a.png'',
          Log INFO ''Downloaded all images'' None,
          ExtractInvoice [''png-bytes''] (VendorType ''ubereats''),
          Log ERROR ''Extraction failed - moving to failed bucket'' None,
          Copy ''landing'' ''2024/a.tif'' ''failed'' ''a.tif'',
          Log ERROR ''Failed to copy to failed bucket'' None,
          Flush],
       store = (\<lambda>_. Map.empty)(0 := [''latency_ms'' \<mapsto> 2500]),
       allocated = 1, clock_reads = 2\<rparr>)
   \<and> fst (handle_invoice_classified
        ((sample_env sample_failure)
           \<lparr>observer_flush := \<lambda>h. if Flush \<in> set h then Inr ()
                                   else Inl (Raised ''flush timeout'')\<rparr>)
        classified_event world0)
      = Inl (Raised ''flush timeout'')
   \<and> drop 8 (events (snd (handle_invoice_classified
        ((sample_env sample_failure)
           \<lparr>observer_flush := \<lambda>h. if Flush \<in> set h then Inr ()
                                   else Inl (Raised ''flush timeout'')\<rparr>)
        classified_event world0)))
      = [Flush, Flush,
         LogException ''Extraction processing failed'' (Raised ''flush timeout'') (Some 2500)]
   \<and> fst (handle_invoice_classified
        ((sample_env sample_success)\<lparr>observer_flush := \<lambda>h. Inl (Raised ''flush timeout'')\<rparr>)
        classified_event world0)
      = Inl (Raised ''flush timeout'')"
proof -
  let ?no_copy = "(sample_env sample_failure)
                    \<lparr>storage_copy := \<lambda>h sb sp db dp. Inl (Raised ''NotFound'')\<rparr>"
  let ?once = "(sample_env sample_failure)
                 \<lparr>observer_flush := \<lambda>h. if Flush \<in> set h then Inr ()
                                         else Inl (Raised ''flush timeout'')\<rparr>"
  let ?never = "(sample_env sample_success)
                  \<lparr>observer_flush := \<lambda>h. Inl (Raised ''flush timeout'')\<rparr>"
  let ?w1 = "snd (classified_prepare ?never classified_event (entered ?never world0))"
  have a: "classified_prepare ?no_copy classified_event (entered ?no_copy world0) =
             (Inr (sample_classified, sample_trace, sample_failure),
              snd (classified_prepare ?no_copy classified_event (entered ?no_copy world0)))"
    by (simp add: prod_eq_iff handler_defs sample_defs)
  have b: "classified_prepare ?once classified_event (entered ?once world0) =
             (Inr (sample_classified, sample_trace, sample_failure),
              snd (classified_prepare ?once classified_event (entered ?once world0)))"
    by (simp add: prod_eq_iff handler_defs sample_defs)
  have c: "classified_prepare ?never classified_event (entered ?never world0) =
             (Inr (sample_classified, sample_trace, sample_success), ?w1)"
    by (simp add: prod_eq_iff handler_defs sample_defs)
  from routing_faults_swallowed_flush_faults_raised
         [OF a, where src = "''gs://landing/2024/a.tif''" and msg = "''boom''" and w' = world0
            and sb = "''landing''" and sp = "''2024/a.tif''"
            and e = "Raised ''flush timeout''" and ?e2.0 = "Raised ''flush timeout''"
            and ws = world0]
       routing_faults_swallowed_flush_faults_raised
         [OF b, where src = "''gs://landing/2024/a.tif''" and msg = "''boom''" and w' = world0
            and sb = "''landing''" and sp = "''2024/a.tif''"
            and e = "Raised ''flush timeout''" and ?e2.0 = "Raised ''flush timeout''"
            and ws = world0]
       routing_faults_swallowed_flush_faults_raised
         [OF c, where src = "''gs://landing/2024/a.tif''" and msg = "''boom''" and w' = world0
            and sb = "''landing''" and sp = "''2024/a.tif''"
            and e = "Raised ''flush timeout''" and ?e2.0 = "Raised ''flush timeout''"
            and ws = "snd (score_extraction ?never sample_trace sample_success
                        (?w1\<lparr>events := events ?w1 @ [Log INFO ''Extraction successful'' None]\<rparr>))"]
  show ?thesis
    by (simp add: handler_defs sample_defs)
qed

section \<open>Image quality in the classification handler\<close>

lemma converted_try_prepared:
  assumes "converted_prepare env ce w2 = (Inr (message, all_valid, avg_score, issues), w1)"
  shows "converted_try env ce w2 = converted_finish env message all_valid avg_score w1"
  by (simp add: converted_try_def then_do_def assms)

lemma handle_converted_tail:
  assumes "converted_try env ce (entered env w) = (r, w1)"
  shows "\<exists>tail. events (snd (handle_invoice_converted env ce w)) = events w1 @ tail
           \<and> list_all (\<lambda>ev. \<not> side_effect ev) tail"
proof (cases r)
  case (Inr u)
  then show ?thesis
    using handle_converted_completed(2) [of env ce w u w1] assms by simp
next
  case (Inl e)
  show ?thesis
  proof (cases "truthy e")
    case True
    then show ?thesis
      using handle_converted_raised(2) [of env ce w e w1] assms Inl by simp
  next
    case False
    then show ?thesis
      using handle_converted_dropped(2) [of env ce w e w1] assms Inl by simp
  qed
qed

text \<open>
  C7. For a message that validates, whose downloads return and whose image-quality
  validation answers "not all valid" with an average score: the handler logs a warning and
  goes on exactly as it does for valid images from there. With the vendor classification, the URI parser, the archive copy and the
  message constructor returning, the next calls are the classification log, the copy of
  the source to the archive bucket under its own path, its log, and the publish of the
  Classified message carrying that average score and the archive URI. That publish is the
  only one of the run, and when it returns the handler returns normally.
\<close>

theorem poor_quality_does_not_abort:
  fixes env :: "'inv env"
  assumes prep: "converted_prepare env ce (entered env w)
                   = (Inr (message, False, avg_score, issues), w1)"
      and classified: "classify_vendor env (converted_message.source_file message)
                         (converted_message.converted_files message) = Inr classification"
      and parsed: "parse_gcs_uri env (converted_message.source_file message) = Inr (sb, sp)"
      and archived: "storage_copy env
                       (events w1 @ [Log WARNING ''Image quality validation failed'' None,
                                     Log INFO ''Vendor classification complete'' None])
                       sb sp (archive_bucket (config env)) sp = Inr archive_uri"
      and valid: "classified_message_check env
                    \<lparr>classified_message.source_file = converted_message.source_file message,
                     classified_message.converted_files = converted_message.converted_files message,
                     classified_message.vendor_type = classification_result.vendor_type classification,
                     quality_score = avg_score,
                     archived_to = Some archive_uri\<rparr> = None"
  shows "converted_try env ce (entered env w) =
           converted_finish env message True avg_score
             (w1\<lparr>events := events w1 @ [Log WARNING ''Image quality validation failed'' None]\<rparr>)
       \<and> take 5 (new_events w1 (snd (handle_invoice_converted env ce w))) =
           [Log WARNING ''Image quality validation failed'' None,
            Log INFO ''Vendor classification complete'' None,
            Copy sb sp (archive_bucket (config env)) sp,
            Log INFO ''Archived original file'' None,
            Publish (classified_topic (config env))
              (Classified
                \<lparr>classified_message.source_file = converted_message.source_file message,
                 classified_message.converted_files = converted_message.converted_files message,
                 classified_message.vendor_type = classification_result.vendor_type classification,
                 quality_score = avg_score,
                 archived_to = Some archive_uri\<rparr>)]
       \<and> filter is_publish (new_events w (snd (handle_invoice_converted env ce w))) =
           [Publish (classified_topic (config env))
              (Classified
                \<lparr>classified_message.source_file = converted_message.source_file message,
                 classified_message.converted_files = converted_message.converted_files message,
                 classified_message.vendor_type = classification_result.vendor_type classification,
                 quality_score = avg_score,
                 archived_to = Some archive_uri\<rparr>)]
       \<and> (\<not> isl (messaging_publish env
                    (events w1 @ [Log WARNING ''Image quality validation failed'' None,
                                  Log INFO ''Vendor classification complete'' None,
                                  Copy sb sp (archive_bucket (config env)) sp,
                                  Log INFO ''Archived original file'' None])
                    (classified_topic (config env))
                    (Classified
                      \<lparr>classified_message.source_file = converted_message.source_file message,
                       classified_message.converted_files = converted_message.converted_files message,
                       classified_message.vendor_type = classification_result.vendor_type classification,
                       quality_score = avg_score,
                       archived_to = Some archive_uri\<rparr>))
            \<longrightarrow> fst (handle_invoice_converted env ce w) = Inr ())"
proof -
  let ?msg = "\<lparr>classified_message.source_file = converted_message.source_file message,
               classified_message.converted_files = converted_message.converted_files message,
               classified_message.vendor_type = classification_result.vendor_type classification,
               quality_score = avg_score,
               archived_to = Some archive_uri\<rparr>"
  let ?pub = "Publish (classified_topic (config env)) (Classified ?msg)"
  let ?before = "[Log WARNING ''Image quality validation failed'' None,
                  Log INFO ''Vendor classification complete'' None,
                  Copy sb sp (archive_bucket (config env)) sp,
                  Log INFO ''Archived original file'' None]"
  let ?answer = "messaging_publish env (events w1 @ ?before) (classified_topic (config env))
                   (Classified ?msg)"
  let ?wp = "w1\<lparr>events := events w1 @ ?before @ [?pub]\<rparr>"
  have t: "converted_try env ce (entered env w) = (?answer, ?wp)"
    by (simp add: converted_try_prepared [OF prep] converted_finish_def then_do_def logger_def
          pure_call_def call_def construct_def classified parsed archived valid)
  from handle_converted_tail [OF t]
  obtain tail where tail: "events (snd (handle_invoice_converted env ce w)) = events ?wp @ tail"
      "list_all (\<lambda>ev. \<not> side_effect ev) tail"
    by blast
  have after: "new_events w1 (snd (handle_invoice_converted env ce w)) = ?before @ [?pub] @ tail"
    by (rule new_events_append) (simp add: tail(1))
  have first: "take 5 (new_events w1 (snd (handle_invoice_converted env ce w))) = ?before @ [?pub]"
    by (simp add: after)
  have "emits (\<lambda>ev. \<not> is_publish ev) (converted_prepare env ce)"
    by (rule emits_converted_prepare) simp_all
  from emits_run [OF this prep]
  obtain new1 where new1: "events w1 = events w @ new1" "list_all (\<lambda>ev. \<not> is_publish ev) new1"
    by (auto simp: events_entered)
  have "new_events w (snd (handle_invoice_converted env ce w)) = new1 @ ?before @ [?pub] @ tail"
    by (rule new_events_append) (simp add: tail(1) new1(1))
  moreover have "list_all (\<lambda>ev. \<not> is_publish ev) tail"
    using tail(2) by (auto simp: list_all_iff quiet_not_publish)
  ultimately have once: "filter is_publish (new_events w (snd (handle_invoice_converted env ce w)))
                           = [?pub]"
    using new1(2) by (simp add: filter_quiet)
  have goes_on: "fst (handle_invoice_converted env ce w) = Inr ()" if sent: "\<not> isl ?answer"
  proof -
    have "?answer = Inr ()"
      using sent by (cases ?answer) auto
    then have "converted_try env ce (entered env w) = (Inr (), ?wp)"
      using t by simp
    then show ?thesis
      by (rule handle_converted_completed(1))
  qed
  have same: "converted_try env ce (entered env w) =
                converted_finish env message True avg_score
                  (w1\<lparr>events := events w1 @
                     [Log WARNING ''Image quality validation failed'' None]\<rparr>)"
    by (simp add: converted_try_prepared [OF prep] converted_finish_def then_do_logger
          then_do_returns)
  show ?thesis
    using same first once goes_on by simp
qed

text \<open>The sample run: the quality validation fails with score 0.4.\<close>

theorem poor_quality_does_not_abort_witness:
  "handle_invoice_converted (sample_env sample_success) converted_event world0 =
     (Inr (),
      \<lparr>events =
         [Log INFO ''Processing converted invoice'' None,
          Read ''processed'' ''a.png'',
          Log INFO ''Downloaded all images'' None,
          Log WARNING ''Image quality validation failed'' None,
          Log INFO ''Vendor classification complete'' None,
          Copy ''landing'' ''2024/a.tif'' ''archive'' ''2024/a.tif'',
          Log INFO ''Archived original file'' None,
          Publish ''invoice-classified''
            (Classified
              \<lparr>classified_message.source_file = ''gs://landing/2024/a.tif'',
               classified_message.converted_files = [''gs://processed/a.png''],
               classified_message.vendor_type = VendorType ''ubereats'',
               quality_score = 0.4,
               archived_to = Some ''gs://archive/2024/a.tif''\<rparr>),
          Log INFO ''Classification complete - published event'' (Some 2500)],
       store = (\<lambda>_. Map.empty)(0 := [''latency_ms'' \<mapsto> 2500]),
       allocated = 1, clock_reads = 2\<rparr>)"
proof -
  let ?env = "sample_env sample_success"
  let ?w1 = "snd (converted_prepare ?env converted_event (entered ?env world0))"
  have prep: "converted_prepare ?env converted_event (entered ?env world0) =
                (Inr (sample_converted, False, 0.4, [''low contrast'']), ?w1)"
    by (simp add: prod_eq_iff handler_defs sample_defs)
  have classified: "classify_vendor ?env (converted_message.source_file sample_converted)
                      (converted_message.converted_files sample_converted)
                    = Inr \<lparr>classification_result.vendor_type = VendorType ''ubereats'',
                           classification_result.confidence = 1,
                           detection_method = ''filename'', matched_pattern = None\<rparr>"
    by (simp add: sample_env_def)
  have parsed: "parse_gcs_uri ?env (converted_message.source_file sample_converted)
                  = Inr (''landing'', ''2024/a.tif'')"
    by (simp add: sample_defs)
  have archived: "storage_copy ?env
                    (events ?w1 @ [Log WARNING ''Image quality validation failed'' None,
                                   Log INFO ''Vendor classification complete'' None])
                    ''landing'' ''2024/a.tif'' (archive_bucket (config ?env)) ''2024/a.tif''
                  = Inr ''gs://archive/2024/a.tif''"
    by (simp add: sample_env_def)
  from poor_quality_does_not_abort [OF prep classified parsed archived]
  show ?thesis
    by (simp add: handler_defs sample_defs)
qed

end
